theory Spec2Isabelle
  imports Complex_Main "HOL-Library.Signed_Division"
begin

section \<open>The SQP driver \<open>Sqpmethod::solve\<close>\<close>

text \<open>
  A shallow embedding of \<open>Sqpmethod::solve\<close> and \<open>Sqpmethod::solve_QP\<close>.
  A \<open>double\<close> is a \<open>real\<close> (exact arithmetic: rounding, infinities and NaN are
  not represented), a \<open>casadi_int\<close> is an \<open>int\<close> (the counters stay far below the
  64-bit range), a buffer is a \<open>real list\<close>, and a matrix is the list of its rows with
  the dense pattern. A callable that reports failure returns \<open>None\<close>. Printing is left
  out, and with it the indefiniteness warning, whose only effect is a message.

  The kernels of the runtime (\<open>casadi_fill\<close>, \<open>casadi_axpy\<close> and the others) are
  called by \<open>solve\<close> but defined elsewhere; each is modelled from its description. A
  kernel with a count \<open>n\<close> works on the first \<open>n\<close> entries of its buffers, which the
  workspace makes at least that long, and the callables and the QP subsolver return
  lists of the lengths of the buffers they write.
\<close>

subsection \<open>Runtime kernels\<close>

text \<open>Modelled from the spec: \<open>casadi_fill\<close> of the runtime, \<open>fill(v, n, \<alpha>)\<close>:
  \<open>v[i] := \<alpha>\<close> for the first \<open>n\<close> entries.\<close>
definition casadi_fill :: "real list \<Rightarrow> nat \<Rightarrow> real \<Rightarrow> real list" where
  "casadi_fill v n alpha = replicate (min n (length v)) alpha @ drop n v"

text \<open>Modelled from the spec: \<open>casadi_copy\<close> of the runtime, \<open>copy(src, n, dst)\<close>:
  elementwise copy of the first \<open>n\<close> entries.\<close>
definition casadi_copy :: "real list \<Rightarrow> nat \<Rightarrow> real list \<Rightarrow> real list" where
  "casadi_copy src n dst = take n src @ drop n dst"

text \<open>Modelled from the spec: \<open>casadi_axpy\<close> of the runtime, \<open>axpy(n, \<alpha>, x, y)\<close>:
  \<open>y += \<alpha>\<cdot>x\<close> on the first \<open>n\<close> entries.\<close>
definition casadi_axpy :: "nat \<Rightarrow> real \<Rightarrow> real list \<Rightarrow> real list \<Rightarrow> real list" where
  "casadi_axpy n alpha x y =
     map2 (\<lambda>yi xi. yi + alpha * xi) (take n y) (take n x) @ drop n y"

text \<open>Modelled from the spec: \<open>casadi_scal\<close> of the runtime, \<open>scal(n, \<alpha>, x)\<close>:
  \<open>x *= \<alpha>\<close> on the first \<open>n\<close> entries.\<close>
definition casadi_scal :: "nat \<Rightarrow> real \<Rightarrow> real list \<Rightarrow> real list" where
  "casadi_scal n alpha x = map (\<lambda>xi. alpha * xi) (take n x) @ drop n x"

text \<open>Modelled from the spec: \<open>casadi_dot\<close> of the runtime, \<open>dot(n, x, y)\<close>.\<close>
definition casadi_dot :: "nat \<Rightarrow> real list \<Rightarrow> real list \<Rightarrow> real" where
  "casadi_dot n x y = sum_list (map2 (\<lambda>xi yi. xi * yi) (take n x) (take n y))"

text \<open>Modelled from the spec: \<open>casadi_norm_inf\<close> of the runtime,
  \<open>norm_inf(n, x) = max |x\<^sub>i|\<close>, zero for no entries.\<close>
definition casadi_norm_inf :: "nat \<Rightarrow> real list \<Rightarrow> real" where
  "casadi_norm_inf n x = foldl (\<lambda>r xi. max r \<bar>xi\<bar>) 0 (take n x)"

text \<open>Modelled from the spec: \<open>casadi_max_viol\<close> of the runtime,
  \<open>max_viol(n, z, lb, ub) = max\<^sub>i max(lb\<^sub>i - z\<^sub>i, z\<^sub>i - ub\<^sub>i, 0)\<close>.\<close>
definition casadi_max_viol :: "nat \<Rightarrow> real list \<Rightarrow> real list \<Rightarrow> real list \<Rightarrow> real" where
  "casadi_max_viol n zs lb ub =
     foldl (\<lambda>r (zi, li, ui). max r (max (li - zi) (zi - ui))) 0
       (zip (take n zs) (zip (take n lb) (take n ub)))"

text \<open>Modelled from the spec: \<open>casadi_vfmax\<close> of the runtime,
  \<open>vfmax(v, n, acc) = max(acc, max\<^sub>i v\<^sub>i)\<close> over the first \<open>n\<close> entries; a count
  that is zero or negative reads nothing.\<close>
definition casadi_vfmax :: "real list \<Rightarrow> int \<Rightarrow> real \<Rightarrow> real" where
  "casadi_vfmax v n acc = foldl max acc (take (nat n) v)"

text \<open>Modelled from the spec: \<open>casadi_mv\<close> of the runtime with the transpose flag set,
  \<open>sparse_mv(A, sp, x, y, true)\<close>: \<open>y += A\<^sup>T x\<close>, on the rows of \<open>A\<close>.\<close>
definition casadi_mv_tr :: "real list list \<Rightarrow> real list \<Rightarrow> real list \<Rightarrow> real list" where
  "casadi_mv_tr A x y =
     foldl (\<lambda>acc (row, xi). map2 (\<lambda>yj aij. yj + aij * xi) acc row) y (zip A x)"

text \<open>Modelled from the spec: \<open>casadi_mv\<close> of the runtime without transposition:
  \<open>y += A x\<close>.\<close>
definition casadi_mv :: "real list list \<Rightarrow> real list \<Rightarrow> real list \<Rightarrow> real list" where
  "casadi_mv A x y = map2 (\<lambda>yi row. yi + casadi_dot (length row) row x) y A"

text \<open>Modelled from the spec: the disc of row \<open>i\<close> in \<open>casadi_lb_eig\<close> of the runtime,
  \<open>B\<^sub>i\<^sub>i - \<Sum>\<^sub>j\<^sub>\<noteq>\<^sub>i |B\<^sub>i\<^sub>j|\<close>.\<close>
definition gershgorin_row :: "nat \<Rightarrow> real list \<Rightarrow> real" where
  "gershgorin_row i row =
     (if i < length row then row ! i else 0)
       - sum_list (map (\<lambda>j. \<bar>row ! j\<bar>) (filter (\<lambda>j. j \<noteq> i) [0..<length row]))"

text \<open>Modelled from the spec: \<open>casadi_lb_eig\<close> of the runtime, the Gershgorin lower
  bound \<open>lb_eig(sp, B) = min\<^sub>i (B\<^sub>i\<^sub>i - \<Sum>\<^sub>j\<^sub>\<noteq>\<^sub>i |B\<^sub>i\<^sub>j|)\<close>; zero for a matrix with no row.\<close>
definition casadi_lb_eig :: "real list list \<Rightarrow> real" where
  "casadi_lb_eig B =
     (case map (\<lambda>i. gershgorin_row i (B ! i)) [0..<length B] of
        [] \<Rightarrow> 0
      | b # bs \<Rightarrow> foldl min b bs)"

text \<open>Modelled from the spec: \<open>casadi_regularize\<close> of the runtime,
  \<open>regularize(sp, B, r)\<close>: \<open>B\<^sub>i\<^sub>i += r\<close> for each diagonal entry.\<close>
definition casadi_regularize :: "real list list \<Rightarrow> real \<Rightarrow> real list list" where
  "casadi_regularize B r =
     map (\<lambda>i. (B ! i)[i := (B ! i) ! i + r]) [0..<length B]"

text \<open>Modelled from the spec: \<open>casadi_bfgs_reset\<close> of the runtime,
  \<open>bfgs_reset(sp, B)\<close>: write the identity over \<open>B\<close>.\<close>
definition casadi_bfgs_reset :: "real list list \<Rightarrow> real list list" where
  "casadi_bfgs_reset B =
     map (\<lambda>i. map (\<lambda>j. if i = j then 1 else 0) [0..<length (B ! i)]) [0..<length B]"

text \<open>Modelled from the spec: the rank-one update \<open>B += \<alpha> u v\<^sup>T\<close> of the runtime, by
  which the damped BFGS update \<open>bfgs(sp, B, s, y_new, y_old, work)\<close> changes \<open>B\<close>.\<close>
definition casadi_rank1 :: "real list list \<Rightarrow> real \<Rightarrow> real list \<Rightarrow> real list \<Rightarrow> real list list" where
  "casadi_rank1 B alpha u v =
     map (\<lambda>i. map (\<lambda>j. (B ! i) ! j + alpha * (u ! i) * (v ! j)) [0..<length (B ! i)])
       [0..<length B]"

text \<open>Modelled from the spec: \<open>casadi_bfgs\<close> of the runtime,
  \<open>bfgs(sp, B, s, y_new, y_old, work)\<close>: the damped BFGS update with step
  \<open>s = dx\<close> and curvature pair from \<open>y_new - y_old\<close>, with Powell's damping
  (\<open>\<theta> = 1\<close> when \<open>s\<^sup>T y \<ge> 0.2 s\<^sup>T B s\<close>, else
  \<open>\<theta> = 0.8 s\<^sup>T B s / (s\<^sup>T B s - s\<^sup>T y)\<close>; \<open>y := \<theta> y + (1 - \<theta>) B s\<close>;
  \<open>B := B + y y\<^sup>T / (s\<^sup>T y) - (B s)(B s)\<^sup>T / (s\<^sup>T B s)\<close>). The scratch buffer
  is local.\<close>
definition casadi_bfgs ::
  "real list list \<Rightarrow> real list \<Rightarrow> real list \<Rightarrow> real list \<Rightarrow> real list list" where
  "casadi_bfgs B s glag glag_old =
     (let n = length B;
          yk = casadi_axpy n (- 1) glag_old (casadi_copy glag n (replicate n 0));
          qk = casadi_mv B s (replicate n 0);
          sq = casadi_dot n s qk;
          sy = casadi_dot n s yk;
          theta = (if 0.2 * sq \<le> sy then 1 else 0.8 * sq / (sq - sy));
          yk' = casadi_axpy n (1 - theta) qk (casadi_scal n theta yk);
          B' = casadi_rank1 B (1 / casadi_dot n s yk') yk' yk'
      in casadi_rank1 B' (- (1 / sq)) qk qk)"

subsection \<open>Memory and configuration\<close>

datatype UnifiedReturnStatus = SOLVER_RET_SUCCESS | SOLVER_RET_UNKNOWN | SOLVER_RET_LIMITED

text \<open>
  The solver memory: the NLP data \<open>d_nlp\<close> (fields \<open>nlp_z\<close>, \<open>nlp_lbz\<close>, \<open>nlp_ubz\<close>,
  \<open>nlp_lam\<close>, \<open>nlp_p\<close>, \<open>nlp_f\<close> for \<open>d_nlp->z\<close> and so on), the SQP data \<open>d\<close>, the
  scalars of \<open>SqpmethodMemory\<close>, and the three locals of \<open>solve\<close> that live across
  iterations (\<open>ls_iter\<close>, \<open>ls_success\<close>, and the step size \<open>t\<close> as \<open>t_ls\<close>).
\<close>
record SqpmethodMemory =
  nlp_z :: "real list"
  nlp_lbz :: "real list"
  nlp_ubz :: "real list"
  nlp_lam :: "real list"
  nlp_p :: "real list"
  nlp_f :: real
  dx :: "real list"
  dlam :: "real list"
  gf :: "real list"
  Jk :: "real list list"
  Bk :: "real list list"
  gLag :: "real list"
  gLag_old :: "real list"
  lbdz :: "real list"
  ubdz :: "real list"
  z_cand :: "real list"
  merit_mem :: "real list"
  iter_count :: int
  merit_ind :: int
  sigma :: real
  reg :: real
  return_status :: string
  success :: bool
  unified_return_status :: UnifiedReturnStatus
  ls_iter :: int
  ls_success :: bool
  t_ls :: real

text \<open>The input and output slots of the QP subsolver that \<open>solve_QP\<close> sets.\<close>
record conic_input =
  CONIC_H :: "real list list"
  CONIC_G :: "real list"
  CONIC_A :: "real list list"
  CONIC_LBX :: "real list"
  CONIC_UBX :: "real list"
  CONIC_LBA :: "real list"
  CONIC_UBA :: "real list"
  CONIC_X0 :: "real list"
  CONIC_LAM_X0 :: "real list"
  CONIC_LAM_A0 :: "real list"

record conic_output =
  CONIC_X :: "real list"
  CONIC_LAM_X :: "real list"
  CONIC_LAM_A :: "real list"

text \<open>
  The solver object: the options read by \<open>init\<close> and the injected callables.
  \<open>nlp_jac_fg x p\<close> gives \<open>(f, grad f, g, jac g)\<close>, \<open>nlp_hess_l x p lam_f lam_g\<close> the
  Hessian of the Lagrangian, \<open>nlp_fg x p\<close> gives \<open>(f, g)\<close>; each is \<open>None\<close> when the
  callable returns non-zero. \<open>qpsol\<close> returns its flag and its outputs; \<open>callback\<close>
  is true when the user asks to stop.
\<close>
record Sqpmethod =
  nx :: nat
  ng :: nat
  min_iter :: int
  max_iter :: int
  max_iter_ls :: int
  c1 :: real
  beta :: real
  merit_memsize :: int
  lbfgs_memory :: int
  tol_pr :: real
  tol_du :: real
  regularize :: bool
  exact_hessian :: bool
  min_step_size :: real
  nlp_jac_fg :: "real list \<Rightarrow> real list \<Rightarrow> (real \<times> real list \<times> real list \<times> real list list) option"
  nlp_hess_l :: "real list \<Rightarrow> real list \<Rightarrow> real \<Rightarrow> real list \<Rightarrow> real list list option"
  nlp_fg :: "real list \<Rightarrow> real list \<Rightarrow> (real \<times> real list) option"
  qpsol :: "conic_input \<Rightarrow> int \<times> conic_output"
  callback :: "SqpmethodMemory \<Rightarrow> bool"

subsection \<open>One iteration of the main loop\<close>

text \<open>
  Evaluation of \<open>nlp_jac_fg\<close> and the gradient of the Lagrangian. \<open>None\<close> is the
  failure of the callable, on which \<open>solve\<close> returns 1.
\<close>
definition solve_eval :: "Sqpmethod \<Rightarrow> SqpmethodMemory \<Rightarrow> SqpmethodMemory option" where
  "solve_eval P m =
     (case nlp_jac_fg P (take (nx P) (nlp_z m)) (nlp_p m) of
        None \<Rightarrow> None
      | Some (fv, gfv, gv, Jv) \<Rightarrow>
          let m1 = m\<lparr>nlp_f := fv, gf := gfv, nlp_z := take (nx P) (nlp_z m) @ gv, Jk := Jv\<rparr>;
              m2 = m1\<lparr>gLag := casadi_copy (gf m1) (nx P) (gLag m1)\<rparr>;
              m3 = m2\<lparr>gLag := casadi_mv_tr (Jk m2) (drop (nx P) (nlp_lam m2)) (gLag m2)\<rparr>;
              m4 = m3\<lparr>gLag := casadi_axpy (nx P) 1 (nlp_lam m3) (gLag m3)\<rparr>
          in Some m4)"

text \<open>The three diagnostics that the convergence criteria read.\<close>
definition pr_inf :: "Sqpmethod \<Rightarrow> SqpmethodMemory \<Rightarrow> real" where
  "pr_inf P m = casadi_max_viol (nx P + ng P) (nlp_z m) (nlp_lbz m) (nlp_ubz m)"

definition du_inf :: "Sqpmethod \<Rightarrow> SqpmethodMemory \<Rightarrow> real" where
  "du_inf P m = casadi_norm_inf (nx P) (gLag m)"

definition dx_norminf :: "Sqpmethod \<Rightarrow> SqpmethodMemory \<Rightarrow> real" where
  "dx_norminf P m = casadi_norm_inf (nx P) (dx m)"

text \<open>
  The callback and the convergence criteria: \<open>Some\<close> of the memory with which the
  loop is left by \<open>break\<close>, \<open>None\<close> when the iteration goes on.
\<close>
definition solve_criteria :: "Sqpmethod \<Rightarrow> SqpmethodMemory \<Rightarrow> SqpmethodMemory option" where
  "solve_criteria P m =
     (if callback P m then
        Some (m\<lparr>return_status := ''User_Requested_Stop''\<rparr>)
      else if min_iter P \<le> iter_count m \<and> pr_inf P m < tol_pr P \<and> du_inf P m < tol_du P then
        Some (m\<lparr>return_status := ''Solve_Succeeded'', success := True\<rparr>)
      else if max_iter P \<le> iter_count m then
        Some (m\<lparr>return_status := ''Maximum_Iterations_Exceeded'',
                 unified_return_status := SOLVER_RET_LIMITED\<rparr>)
      else if 1 \<le> iter_count m \<and> min_iter P \<le> iter_count m
              \<and> dx_norminf P m \<le> min_step_size P then
        Some (m\<lparr>return_status := ''Search_Direction_Becomes_Too_Small''\<rparr>)
      else None)"

text \<open>
  The Hessian: exact (with the Gershgorin regularization) or BFGS. \<open>None\<close> is the
  failure of \<open>nlp_hess_l\<close>, on which \<open>solve\<close> returns 1. \<open>std::fmin\<close> is \<open>min\<close>,
  the remainder \<open>%\<close> of C is \<open>smod\<close>.
\<close>
definition solve_hessian :: "Sqpmethod \<Rightarrow> SqpmethodMemory \<Rightarrow> SqpmethodMemory option" where
  "solve_hessian P m =
     (if exact_hessian P then
        (case nlp_hess_l P (take (nx P) (nlp_z m)) (nlp_p m) 1 (drop (nx P) (nlp_lam m)) of
           None \<Rightarrow> None
         | Some H \<Rightarrow>
             let m1 = m\<lparr>Bk := H\<rparr> in
             if regularize P then
               let m2 = m1\<lparr>reg := min 0 (- casadi_lb_eig (Bk m1))\<rparr> in
               Some (if 0 < reg m2 then m2\<lparr>Bk := casadi_regularize (Bk m2) (reg m2)\<rparr> else m2)
             else Some m1)
      else if iter_count m = 0 then
        let m1 = m\<lparr>Bk := map (\<lambda>row. casadi_fill row (length row) 1) (Bk m)\<rparr> in
        Some (m1\<lparr>Bk := casadi_bfgs_reset (Bk m1)\<rparr>)
      else
        let m1 = (if iter_count m smod lbfgs_memory P = 0
                  then m\<lparr>Bk := casadi_bfgs_reset (Bk m)\<rparr> else m) in
        Some (m1\<lparr>Bk := casadi_bfgs (Bk m1) (dx m1) (gLag m1) (gLag_old m1)\<rparr>))"

text \<open>
  \<open>Sqpmethod::solve_QP\<close>: the slots are set, the subsolver is called, and its flag
  is dropped; the outputs land in \<open>x_opt\<close> and \<open>dlam\<close>.
\<close>
definition solve_QP ::
  "Sqpmethod \<Rightarrow> real list list \<Rightarrow> real list \<Rightarrow> real list \<Rightarrow> real list \<Rightarrow> real list list
     \<Rightarrow> real list \<Rightarrow> real list \<Rightarrow> real list \<times> real list" where
  "solve_QP P H g lbdz' ubdz' A x_opt dlam' =
     (let arg = \<lparr>CONIC_H = H, CONIC_G = g, CONIC_A = A,
                  CONIC_LBX = take (nx P) lbdz', CONIC_UBX = take (nx P) ubdz',
                  CONIC_LBA = drop (nx P) lbdz', CONIC_UBA = drop (nx P) ubdz',
                  CONIC_X0 = x_opt,
                  CONIC_LAM_X0 = take (nx P) dlam', CONIC_LAM_A0 = drop (nx P) dlam'\<rparr>;
          res = snd (qpsol P arg)
      in (CONIC_X res, CONIC_LAM_X res @ CONIC_LAM_A res))"

text \<open>Formulation of the QP, the counter, and the QP solve.\<close>
definition solve_qp_step :: "Sqpmethod \<Rightarrow> SqpmethodMemory \<Rightarrow> SqpmethodMemory" where
  "solve_qp_step P m =
     (let n = nx P + ng P;
          m1 = m\<lparr>lbdz := casadi_copy (nlp_lbz m) n (lbdz m)\<rparr>;
          m2 = m1\<lparr>lbdz := casadi_axpy n (- 1) (nlp_z m1) (lbdz m1)\<rparr>;
          m3 = m2\<lparr>ubdz := casadi_copy (nlp_ubz m2) n (ubdz m2)\<rparr>;
          m4 = m3\<lparr>ubdz := casadi_axpy n (- 1) (nlp_z m3) (ubdz m3)\<rparr>;
          m5 = m4\<lparr>dlam := casadi_copy (nlp_lam m4) n (dlam m4)\<rparr>;
          m6 = m5\<lparr>dx := casadi_fill (dx m5) (nx P) 0\<rparr>;
          m7 = m6\<lparr>iter_count := iter_count m6 + 1\<rparr>;
          (x_opt, dl) = solve_QP P (Bk m7) (gf m7) (lbdz m7) (ubdz m7) (Jk m7) (dx m7) (dlam m7)
      in m7\<lparr>dx := x_opt, dlam := dl\<rparr>)"

subsection \<open>The line search\<close>

text \<open>
  The penalty parameter, the merit value of the iterate, its place in the merit
  memory and the reference value of the Armijo condition: the new memory, \<open>L1dir\<close>
  and \<open>meritmax\<close>.
\<close>
definition solve_merit :: "Sqpmethod \<Rightarrow> SqpmethodMemory \<Rightarrow> SqpmethodMemory \<times> real \<times> real" where
  "solve_merit P m =
     (let m1 = m\<lparr>sigma := max (sigma m) (1.01 * casadi_norm_inf (nx P + ng P) (dlam m))\<rparr>;
          l1_infeas = casadi_max_viol (nx P + ng P) (nlp_z m1) (nlp_lbz m1) (nlp_ubz m1);
          F_sens = casadi_dot (nx P) (dx m1) (gf m1);
          L1dir = F_sens - sigma m1 * l1_infeas;
          L1merit = nlp_f m1 + sigma m1 * l1_infeas;
          m2 = m1\<lparr>merit_mem := (merit_mem m1)[nat (merit_ind m1) := L1merit]\<rparr>;
          m3 = m2\<lparr>merit_ind := merit_ind m2 + 1\<rparr>;
          m4 = m3\<lparr>merit_ind := merit_ind m3 smod merit_memsize P\<rparr>;
          meritmax = casadi_vfmax (drop 1 (merit_mem m4))
                       (min (merit_memsize P) (iter_count m4) - 1) (merit_mem m4 ! 0)
      in (m4, L1dir, meritmax))"

datatype ls_ctl = LsBreak SqpmethodMemory | LsContinue SqpmethodMemory

text \<open>The body of the line-search loop: it ends in \<open>break\<close> or goes round again.\<close>
definition ls_body :: "Sqpmethod \<Rightarrow> real \<Rightarrow> real \<Rightarrow> SqpmethodMemory \<Rightarrow> ls_ctl" where
  "ls_body P L1dir meritmax m =
     (let m1 = m\<lparr>ls_iter := ls_iter m + 1\<rparr>;
          m2 = m1\<lparr>z_cand := casadi_copy (nlp_z m1) (nx P) (z_cand m1)\<rparr>;
          m3 = m2\<lparr>z_cand := casadi_axpy (nx P) (t_ls m2) (dx m2) (z_cand m2)\<rparr>
      in case nlp_fg P (take (nx P) (z_cand m3)) (nlp_p m3) of
           None \<Rightarrow> LsContinue (m3\<lparr>t_ls := beta P * t_ls m3\<rparr>)
         | Some (fk_cand, g_cand) \<Rightarrow>
             let m4 = m3\<lparr>z_cand := take (nx P) (z_cand m3) @ g_cand\<rparr>;
                 l1_infeas = casadi_max_viol (nx P + ng P) (z_cand m4) (nlp_lbz m4) (nlp_ubz m4);
                 L1merit_cand = fk_cand + sigma m4 * l1_infeas
             in if L1merit_cand \<le> meritmax + t_ls m4 * c1 P * L1dir then LsBreak m4
                else if ls_iter m4 = max_iter_ls P then LsBreak (m4\<lparr>ls_success := False\<rparr>)
                else LsContinue (m4\<lparr>t_ls := beta P * t_ls m4\<rparr>))"

text \<open>The line-search loop \<open>while (true)\<close>: \<open>None\<close> when it never leaves.\<close>
partial_function (option) ls_loop ::
  "Sqpmethod \<Rightarrow> real \<Rightarrow> real \<Rightarrow> SqpmethodMemory \<Rightarrow> SqpmethodMemory option" where
  "ls_loop P L1dir meritmax m =
     (case ls_body P L1dir meritmax m of
        LsBreak m' \<Rightarrow> Some m'
      | LsContinue m' \<Rightarrow> ls_loop P L1dir meritmax m')"

declare ls_loop.simps [code]

text \<open>
  From the reset of the step size to the update of the duals and the scaling of
  \<open>dx\<close>; with \<open>max_iter_ls = 0\<close> the full step.
\<close>
definition solve_linesearch :: "Sqpmethod \<Rightarrow> SqpmethodMemory \<Rightarrow> SqpmethodMemory option" where
  "solve_linesearch P m =
     (let m0 = m\<lparr>t_ls := 1, ls_iter := 0, ls_success := True\<rparr>;
          n = nx P + ng P
      in if 0 < max_iter_ls P then
           (case solve_merit P m0 of (m1, L1dir, meritmax) \<Rightarrow>
              (case ls_loop P L1dir meritmax m1 of
                 None \<Rightarrow> None
               | Some m2 \<Rightarrow>
                   let m3 = m2\<lparr>nlp_lam := casadi_scal n (1 - t_ls m2) (nlp_lam m2)\<rparr>;
                       m4 = m3\<lparr>nlp_lam := casadi_axpy n (t_ls m3) (dlam m3) (nlp_lam m3)\<rparr>
                   in Some (m4\<lparr>dx := casadi_scal (nx P) (t_ls m4) (dx m4)\<rparr>)))
         else Some (m0\<lparr>nlp_lam := casadi_copy (dlam m0) n (nlp_lam m0)\<rparr>))"

text \<open>The step, and for BFGS the gradient of the Lagrangian at the old point.\<close>
definition solve_take_step :: "Sqpmethod \<Rightarrow> SqpmethodMemory \<Rightarrow> SqpmethodMemory" where
  "solve_take_step P m =
     (let m1 = m\<lparr>nlp_z := casadi_axpy (nx P) 1 (dx m) (nlp_z m)\<rparr>
      in if \<not> exact_hessian P then
           let m2 = m1\<lparr>gLag_old := casadi_copy (gf m1) (nx P) (gLag_old m1)\<rparr>;
               m3 = m2\<lparr>gLag_old := casadi_mv_tr (Jk m2) (drop (nx P) (nlp_lam m2)) (gLag_old m2)\<rparr>
           in m3\<lparr>gLag_old := casadi_axpy (nx P) 1 (nlp_lam m3) (gLag_old m3)\<rparr>
         else m1)"

subsection \<open>The main loop and \<open>solve\<close>\<close>

datatype loop_ctl = Next SqpmethodMemory | Break SqpmethodMemory | Return1 SqpmethodMemory

text \<open>
  The body of the main loop: \<open>Next\<close> for another round, \<open>Break\<close> for \<open>break\<close>,
  \<open>Return1\<close> for \<open>return 1\<close>; \<open>None\<close> when the line search never leaves its loop.
\<close>
definition sqp_iteration :: "Sqpmethod \<Rightarrow> SqpmethodMemory \<Rightarrow> loop_ctl option" where
  "sqp_iteration P m =
     (case solve_eval P m of
        None \<Rightarrow> Some (Return1 m)
      | Some m1 \<Rightarrow>
          (case solve_criteria P m1 of
             Some mb \<Rightarrow> Some (Break mb)
           | None \<Rightarrow>
               (case solve_hessian P m1 of
                  None \<Rightarrow> Some (Return1 m1)
                | Some m2 \<Rightarrow>
                    (case solve_linesearch P (solve_qp_step P m2) of
                       None \<Rightarrow> None
                     | Some m3 \<Rightarrow> Some (Next (solve_take_step P m3))))))"

text \<open>The main loop \<open>while (true)\<close>, with the value \<open>solve\<close> returns.\<close>
partial_function (option) solve_loop ::
  "Sqpmethod \<Rightarrow> SqpmethodMemory \<Rightarrow> (int \<times> SqpmethodMemory) option" where
  "solve_loop P m =
     (case sqp_iteration P m of
        None \<Rightarrow> None
      | Some (Next m') \<Rightarrow> solve_loop P m'
      | Some (Break m') \<Rightarrow> Some (0, m')
      | Some (Return1 m') \<Rightarrow> Some (1, m'))"

declare solve_loop.simps [code]

text \<open>The resets at the entry of \<open>solve\<close>.\<close>
definition solve_reset :: "Sqpmethod \<Rightarrow> SqpmethodMemory \<Rightarrow> SqpmethodMemory" where
  "solve_reset P m =
     (let m1 = m\<lparr>iter_count := 0, ls_iter := 0, ls_success := True,
                 merit_ind := 0, sigma := 0, reg := 0, t_ls := 0\<rparr>
      in m1\<lparr>dx := casadi_fill (dx m1) (nx P) 0\<rparr>)"

definition solve :: "Sqpmethod \<Rightarrow> SqpmethodMemory \<Rightarrow> (int \<times> SqpmethodMemory) option" where
  "solve P m = solve_loop P (solve_reset P m)"

text \<open>The memories at which the main loop starts a round, from a given one.\<close>
inductive iterates :: "Sqpmethod \<Rightarrow> SqpmethodMemory \<Rightarrow> SqpmethodMemory \<Rightarrow> bool"
  for P :: Sqpmethod and m :: SqpmethodMemory where
  iterates_start: "iterates P m m"
| iterates_round: "iterates P m m' \<Longrightarrow> sqp_iteration P m' = Some (Next m'') \<Longrightarrow> iterates P m m''"

subsection \<open>A small problem\<close>

text \<open>
  Minimize \<open>x\<^sup>2\<close> over \<open>-10 \<le> x \<le> 10\<close>, no constraint function, the default
  options, and a QP subsolver for one unbounded variable: \<open>x = - g / H\<close>.
\<close>
definition ex_P :: Sqpmethod where
  "ex_P = \<lparr>nx = 1, ng = 0, min_iter = 0, max_iter = 50, max_iter_ls = 3,
     c1 = 1 / 10000, beta = 4 / 5, merit_memsize = 4, lbfgs_memory = 10,
     tol_pr = 1 / 1000000, tol_du = 1 / 1000000, regularize = False, exact_hessian = True,
     min_step_size = 1 / 10000000000,
     nlp_jac_fg = (\<lambda>x p. Some ((x ! 0) * (x ! 0), [2 * (x ! 0)], [], [])),
     nlp_hess_l = (\<lambda>x p lam_f lam_g. Some [[2 * lam_f]]),
     nlp_fg = (\<lambda>x p. Some ((x ! 0) * (x ! 0), [])),
     qpsol = (\<lambda>a. (0, \<lparr>CONIC_X = [- (CONIC_G a ! 0) / (CONIC_H a ! 0 ! 0)],
                          CONIC_LAM_X = [0], CONIC_LAM_A = []\<rparr>)),
     callback = (\<lambda>m. False)\<rparr>"

definition ex_m :: SqpmethodMemory where
  "ex_m = \<lparr>nlp_z = [1], nlp_lbz = [- 10], nlp_ubz = [10], nlp_lam = [0], nlp_p = [],
     nlp_f = 0, dx = [0], dlam = [0], gf = [0], Jk = [], Bk = [[0]], gLag = [0],
     gLag_old = [0], lbdz = [0], ubdz = [0], z_cand = [0], merit_mem = [0, 0, 0, 0],
     iter_count = - 1, merit_ind = 0, sigma = 0, reg = 0, return_status = [],
     success = False, unified_return_status = SOLVER_RET_UNKNOWN,
     ls_iter = 0, ls_success = True, t_ls = 0\<rparr>"

text \<open>
  The memory of the small problem after the first evaluation of \<open>nlp_jac_fg\<close>, and
  after the first QP solve with the exact Hessian and with the limited-memory one.
\<close>
definition ex_e0 :: SqpmethodMemory where
  "ex_e0 = ex_m\<lparr>iter_count := 0, nlp_f := 1, gf := [2], gLag := [2]\<rparr>"

definition ex_q0 :: SqpmethodMemory where
  "ex_q0 = ex_e0\<lparr>Bk := [[2]], lbdz := [- 11], ubdz := [9], iter_count := 1, dx := [- 1],
     dlam := [0]\<rparr>"

definition ex_Bq0 :: SqpmethodMemory where
  "ex_Bq0 = ex_e0\<lparr>Bk := [[1]], lbdz := [- 11], ubdz := [9], iter_count := 1, dx := [- 2],
     dlam := [0]\<rparr>"

text \<open>The memory of the small problem after the first round of the main loop.\<close>
definition ex_m1 :: SqpmethodMemory where
  "ex_m1 = ex_m\<lparr>nlp_z := [0], nlp_f := 1, dx := [- 1], gf := [2], Bk := [[2]], gLag := [2],
     lbdz := [- 11], ubdz := [9], merit_mem := [1, 0, 0, 0], iter_count := 1, merit_ind := 1,
     ls_iter := 1, t_ls := 1\<rparr>"

text \<open>The memory with which \<open>solve\<close> returns on the small problem.\<close>
definition ex_mf :: SqpmethodMemory where
  "ex_mf = ex_m1\<lparr>nlp_f := 0, gf := [0], gLag := [0], return_status := ''Solve_Succeeded'',
     success := True\<rparr>"

text \<open>
  The small problem with the limited-memory Hessian reset at every round, and its
  memory after the first round (the line search backtracks once, \<open>t = 4/5\<close>).
\<close>
definition ex_B :: Sqpmethod where
  "ex_B = ex_P\<lparr>lbfgs_memory := 1, exact_hessian := False\<rparr>"

definition ex_B1 :: SqpmethodMemory where
  "ex_B1 = ex_m\<lparr>nlp_z := [- (3 / 5)], nlp_f := 1, dx := [- (8 / 5)], gf := [2], Bk := [[1]],
     gLag := [2], gLag_old := [2], lbdz := [- 11], ubdz := [9], z_cand := [- (3 / 5)],
     merit_mem := [1, 0, 0, 0], iter_count := 1, merit_ind := 1, ls_iter := 2,
     t_ls := 4 / 5\<rparr>"

text \<open>
  The limited-memory run goes on: the memory after the second evaluation of
  \<open>nlp_jac_fg\<close>, and after the second round.
\<close>
definition ex_Be1 :: SqpmethodMemory where
  "ex_Be1 = ex_B1\<lparr>nlp_f := 9 / 25, gf := [- (6 / 5)], gLag := [- (6 / 5)]\<rparr>"

definition ex_B2 :: SqpmethodMemory where
  "ex_B2 = ex_Be1\<lparr>nlp_z := [0], Bk := [[2]], lbdz := [- (47 / 5)], ubdz := [53 / 5],
     iter_count := 2, dx := [3 / 5], dlam := [0], t_ls := 1, ls_iter := 1,
     merit_mem := [1, 9 / 25, 0, 0], merit_ind := 2, z_cand := [0],
     gLag_old := [- (6 / 5)]\<rparr>"

text \<open>The small problem without line search, and its memory after the first round.\<close>
definition ex_F :: Sqpmethod where
  "ex_F = ex_P\<lparr>max_iter_ls := 0\<rparr>"

definition ex_F1 :: SqpmethodMemory where
  "ex_F1 = ex_m\<lparr>nlp_z := [0], nlp_f := 1, dx := [- 1], gf := [2], Bk := [[2]], gLag := [2],
     lbdz := [- 11], ubdz := [9], iter_count := 1, t_ls := 1\<rparr>"

text \<open>
  The small problem with an objective that cannot be evaluated anywhere, and the
  memory of the limited-memory run at the entry of its first line-search loop.
\<close>
definition ex_H :: Sqpmethod where
  "ex_H = ex_P\<lparr>nlp_fg := (\<lambda>x p. None)\<rparr>"

definition ex_Bs0 :: SqpmethodMemory where
  "ex_Bs0 = ex_Bq0\<lparr>t_ls := 1, ls_iter := 0, merit_mem := [1, 0, 0, 0], merit_ind := 1\<rparr>"

text \<open>
  The memory of the limited-memory run after the second QP solve, and at the entry of
  its second line-search loop.
\<close>
definition ex_Bq1 :: SqpmethodMemory where
  "ex_Bq1 = ex_Be1\<lparr>Bk := [[2]], lbdz := [- (47 / 5)], ubdz := [53 / 5], iter_count := 2,
     dx := [3 / 5], dlam := [0]\<rparr>"

definition ex_Bs1 :: SqpmethodMemory where
  "ex_Bs1 = ex_Bq1\<lparr>t_ls := 1, ls_iter := 0, merit_mem := [1, 9 / 25, 0, 0], merit_ind := 2\<rparr>"

subsection \<open>Auxiliary notions\<close>

text \<open>The candidate point that a round of the line-search loop evaluates.\<close>
definition ls_candidate :: "Sqpmethod \<Rightarrow> SqpmethodMemory \<Rightarrow> real list" where
  "ls_candidate P m =
     take (nx P) (casadi_axpy (nx P) (t_ls m) (dx m) (casadi_copy (nlp_z m) (nx P) (z_cand m)))"

text \<open>A memory with the four fields blanked that the line-search loop writes.\<close>
definition ls_frame :: "SqpmethodMemory \<Rightarrow> SqpmethodMemory" where
  "ls_frame m = m\<lparr>ls_iter := 0, z_cand := [], t_ls := 0, ls_success := True\<rparr>"

text \<open>The memories at which the line-search loop starts a round, from a given one.\<close>
inductive ls_iterates ::
  "Sqpmethod \<Rightarrow> real \<Rightarrow> real \<Rightarrow> SqpmethodMemory \<Rightarrow> SqpmethodMemory \<Rightarrow> bool"
  for P :: Sqpmethod and L1dir :: real and meritmax :: real and m :: SqpmethodMemory where
  ls_iterates_start: "ls_iterates P L1dir meritmax m m"
| ls_iterates_round: "ls_iterates P L1dir meritmax m m' \<Longrightarrow>
     ls_body P L1dir meritmax m' = LsContinue m'' \<Longrightarrow> ls_iterates P L1dir meritmax m m''"

section \<open>Auxiliary facts\<close>

lemmas kernel_defs = casadi_fill_def casadi_copy_def casadi_axpy_def casadi_scal_def
  casadi_dot_def casadi_norm_inf_def casadi_max_viol_def casadi_vfmax_def casadi_mv_tr_def
  casadi_mv_def casadi_lb_eig_def gershgorin_row_def casadi_regularize_def
  casadi_bfgs_reset_def casadi_rank1_def casadi_bfgs_def

subsection \<open>The main loop\<close>

lemma iterates_trans:
  assumes "iterates P m' m''" shows "iterates P m m' \<Longrightarrow> iterates P m m''"
  using assms by (induction rule: iterates.induct) (auto intro: iterates.intros)

lemma iterates_first:
  "sqp_iteration P m = Some (Next m') \<Longrightarrow> iterates P m' m'' \<Longrightarrow> iterates P m m''"
  by (rule iterates_trans[where m' = m']) (auto intro: iterates.intros)

lemma solve_loop_result:
  assumes "solve_loop P m = Some r"
  shows "\<exists>m'. iterates P m m' \<and>
           ((\<exists>mb. sqp_iteration P m' = Some (Break mb) \<and> r = (0, mb)) \<or>
            (\<exists>mr. sqp_iteration P m' = Some (Return1 mr) \<and> r = (1, mr)))"
proof -
  let ?Q = "\<lambda>(P, m) (r :: int \<times> SqpmethodMemory). \<exists>m'. iterates P m m' \<and>
           ((\<exists>mb. sqp_iteration P m' = Some (Break mb) \<and> r = (0, mb)) \<or>
            (\<exists>mr. sqp_iteration P m' = Some (Return1 mr) \<and> r = (1, mr)))"
  have "?Q (P, m) r"
  proof (rule solve_loop.raw_induct[where Pa = ?Q, OF _ assms])
    fix loop P m r
    assume IH: "\<And>P m r. loop P m = Some r \<Longrightarrow> ?Q (P, m) r"
      and step: "(case sqp_iteration P m of None \<Rightarrow> None
                  | Some (Next m') \<Rightarrow> loop P m' | Some (Break m') \<Rightarrow> Some (0, m')
                  | Some (Return1 m') \<Rightarrow> Some (1, m')) = Some r"
    show "?Q (P, m) r"
    proof (cases "sqp_iteration P m")
      case None
      with step show ?thesis by simp
    next
      case (Some c)
      show ?thesis
      proof (cases c)
        case (Next m')
        with Some step have "loop P m' = Some r" by simp
        from IH[OF this] obtain ml where "iterates P m' ml"
          and "(\<exists>mb. sqp_iteration P ml = Some (Break mb) \<and> r = (0, mb)) \<or>
            (\<exists>mr. sqp_iteration P ml = Some (Return1 mr) \<and> r = (1, mr))" by auto
        moreover from Some Next have "sqp_iteration P m = Some (Next m')" by simp
        ultimately have "\<exists>ml. iterates P m ml \<and>
           ((\<exists>mb. sqp_iteration P ml = Some (Break mb) \<and> r = (0, mb)) \<or>
            (\<exists>mr. sqp_iteration P ml = Some (Return1 mr) \<and> r = (1, mr)))"
          by (blast intro: iterates_first)
        then show ?thesis by simp
      next
        case (Break mb)
        with Some step have "r = (0, mb)" by simp
        with Some Break show ?thesis by (auto intro: iterates.intros)
      next
        case (Return1 mr)
        with Some step have "r = (1, mr)" by simp
        with Some Return1 show ?thesis by (auto intro: iterates.intros)
      qed
    qed
  qed
  then show ?thesis by simp
qed

lemma solve_loop_iterates:
  assumes "iterates P m m'" shows "solve_loop P m = solve_loop P m'"
  using assms
proof (induction rule: iterates.induct)
  case iterates_start
  show ?case by simp
next
  case (iterates_round m' m'')
  have "solve_loop P m' = solve_loop P m''"
    using iterates_round.hyps(2) by (subst solve_loop.simps) simp
  with iterates_round.IH show ?case by simp
qed

lemma solve_criteria_frame:
  "solve_criteria P m = Some mb \<Longrightarrow> pr_inf P mb = pr_inf P m \<and> du_inf P mb = du_inf P m \<and> iter_count mb = iter_count m"
  by (auto simp: solve_criteria_def pr_inf_def du_inf_def split: if_splits)

lemma solve_criteria_succeeded:
  "solve_criteria P m = Some mb \<Longrightarrow> return_status mb = ''Solve_Succeeded'' \<Longrightarrow>
     min_iter P \<le> iter_count m \<and> pr_inf P m < tol_pr P \<and> du_inf P m < tol_du P \<and> success mb"
  by (auto simp: solve_criteria_def split: if_splits)

lemma sqp_iteration_Break:
  "sqp_iteration P m = Some (Break mb) \<longleftrightarrow> (\<exists>m1. solve_eval P m = Some m1 \<and> solve_criteria P m1 = Some mb)"
  by (auto simp: sqp_iteration_def split: option.splits)

lemma sqp_iteration_Return1:
  "sqp_iteration P m = Some (Return1 mr) \<longleftrightarrow>
     (solve_eval P m = None \<and> mr = m) \<or>
     (\<exists>m1. solve_eval P m = Some m1 \<and> solve_criteria P m1 = None \<and> solve_hessian P m1 = None \<and> mr = m1)"
  by (auto simp: sqp_iteration_def split: option.splits)

lemma solve_loop_Break: "sqp_iteration P m = Some (Break mb) \<Longrightarrow> solve_loop P m = Some (0, mb)"
  by (subst solve_loop.simps) simp

subsection \<open>The line-search loop\<close>

lemma ls_body_failed:
  assumes "nlp_fg P (ls_candidate P m) (nlp_p m) = None"
  shows "ls_body P L M m =
     LsContinue (m\<lparr>ls_iter := ls_iter m + 1,
        z_cand := casadi_axpy (nx P) (t_ls m) (dx m) (casadi_copy (nlp_z m) (nx P) (z_cand m)),
        t_ls := beta P * t_ls m\<rparr>)"
  using assms by (simp add: ls_body_def ls_candidate_def Let_def)

lemma ls_body_evaluated:
  assumes "nlp_fg P (ls_candidate P m) (nlp_p m) = Some (fk, g)"
  shows "ls_body P L M m =
     (let m4 = m\<lparr>ls_iter := ls_iter m + 1, z_cand := ls_candidate P m @ g\<rparr> in
      if fk + sigma m * casadi_max_viol (nx P + ng P) (ls_candidate P m @ g) (nlp_lbz m) (nlp_ubz m)
           \<le> M + t_ls m * c1 P * L then LsBreak m4
      else if ls_iter m + 1 = max_iter_ls P then LsBreak (m4\<lparr>ls_success := False\<rparr>)
      else LsContinue (m4\<lparr>t_ls := beta P * t_ls m\<rparr>))"
  using assms by (simp add: ls_body_def ls_candidate_def Let_def)

lemma ls_body_Break_frame:
  "ls_body P L M m = LsBreak m' \<Longrightarrow>
     ls_frame m' = ls_frame m \<and> ls_iter m' = ls_iter m + 1 \<and> t_ls m' = t_ls m"
  by (cases "nlp_fg P (ls_candidate P m) (nlp_p m)")
     (auto simp: ls_body_failed ls_body_evaluated ls_frame_def Let_def split: if_splits)

lemma ls_body_Continue_frame:
  "ls_body P L M m = LsContinue m' \<Longrightarrow>
     ls_frame m' = ls_frame m \<and> ls_iter m' = ls_iter m + 1 \<and> t_ls m' = beta P * t_ls m
       \<and> ls_success m' = ls_success m"
  by (cases "nlp_fg P (ls_candidate P m) (nlp_p m)")
     (auto simp: ls_body_failed ls_body_evaluated ls_frame_def Let_def split: if_splits)

lemma ls_loop_frame:
  assumes "ls_loop P L M m = Some m'"
  shows "ls_frame m' = ls_frame m"
proof -
  let ?Q = "\<lambda>(((P :: Sqpmethod, L :: real), M :: real), m) m'. ls_frame m' = ls_frame m"
  have "?Q (((P, L), M), m) m'"
  proof (rule ls_loop.raw_induct[where Pa = ?Q, OF _ assms])
    fix loop P L M m m'
    assume IH: "\<And>P L M m m'. loop P L M m = Some m' \<Longrightarrow> ?Q (((P, L), M), m) m'"
      and step: "(case ls_body P L M m of LsBreak m' \<Rightarrow> Some m'
                  | LsContinue m' \<Rightarrow> loop P L M m') = Some m'"
    show "?Q (((P, L), M), m) m'"
    proof (cases "ls_body P L M m")
      case (LsBreak mb)
      with step have "m' = mb" by simp
      with ls_body_Break_frame[OF LsBreak] show ?thesis by simp
    next
      case (LsContinue mc)
      with step have "loop P L M mc = Some m'" by simp
      from IH[OF this] ls_body_Continue_frame[OF LsContinue] show ?thesis by simp
    qed
  qed
  then show ?thesis by simp
qed

lemma ls_frame_fields:
  assumes "ls_frame m' = ls_frame m"
  shows "sigma m' = sigma m" "dlam m' = dlam m" "dx m' = dx m" "nlp_lam m' = nlp_lam m"
    "nlp_z m' = nlp_z m" "return_status m' = return_status m" "iter_count m' = iter_count m"
    "merit_mem m' = merit_mem m" "merit_ind m' = merit_ind m" "Bk m' = Bk m" "reg m' = reg m"
    "gf m' = gf m" "Jk m' = Jk m" "nlp_f m' = nlp_f m" "success m' = success m"
    "unified_return_status m' = unified_return_status m" "nlp_p m' = nlp_p m"
    "nlp_lbz m' = nlp_lbz m" "nlp_ubz m' = nlp_ubz m"
proof -
  have "sigma (ls_frame m') = sigma (ls_frame m)" using assms by simp
  then show "sigma m' = sigma m" by (simp add: ls_frame_def)
  have "dlam (ls_frame m') = dlam (ls_frame m)" using assms by simp
  then show "dlam m' = dlam m" by (simp add: ls_frame_def)
  have "dx (ls_frame m') = dx (ls_frame m)" using assms by simp
  then show "dx m' = dx m" by (simp add: ls_frame_def)
  have "nlp_lam (ls_frame m') = nlp_lam (ls_frame m)" using assms by simp
  then show "nlp_lam m' = nlp_lam m" by (simp add: ls_frame_def)
  have "nlp_z (ls_frame m') = nlp_z (ls_frame m)" using assms by simp
  then show "nlp_z m' = nlp_z m" by (simp add: ls_frame_def)
  have "return_status (ls_frame m') = return_status (ls_frame m)" using assms by simp
  then show "return_status m' = return_status m" by (simp add: ls_frame_def)
  have "iter_count (ls_frame m') = iter_count (ls_frame m)" using assms by simp
  then show "iter_count m' = iter_count m" by (simp add: ls_frame_def)
  have "merit_mem (ls_frame m') = merit_mem (ls_frame m)" using assms by simp
  then show "merit_mem m' = merit_mem m" by (simp add: ls_frame_def)
  have "merit_ind (ls_frame m') = merit_ind (ls_frame m)" using assms by simp
  then show "merit_ind m' = merit_ind m" by (simp add: ls_frame_def)
  have "Bk (ls_frame m') = Bk (ls_frame m)" using assms by simp
  then show "Bk m' = Bk m" by (simp add: ls_frame_def)
  have "reg (ls_frame m') = reg (ls_frame m)" using assms by simp
  then show "reg m' = reg m" by (simp add: ls_frame_def)
  have "gf (ls_frame m') = gf (ls_frame m)" using assms by simp
  then show "gf m' = gf m" by (simp add: ls_frame_def)
  have "Jk (ls_frame m') = Jk (ls_frame m)" using assms by simp
  then show "Jk m' = Jk m" by (simp add: ls_frame_def)
  have "nlp_f (ls_frame m') = nlp_f (ls_frame m)" using assms by simp
  then show "nlp_f m' = nlp_f m" by (simp add: ls_frame_def)
  have "success (ls_frame m') = success (ls_frame m)" using assms by simp
  then show "success m' = success m" by (simp add: ls_frame_def)
  have "unified_return_status (ls_frame m') = unified_return_status (ls_frame m)" using assms by simp
  then show "unified_return_status m' = unified_return_status m" by (simp add: ls_frame_def)
  have "nlp_p (ls_frame m') = nlp_p (ls_frame m)" using assms by simp
  then show "nlp_p m' = nlp_p m" by (simp add: ls_frame_def)
  have "nlp_lbz (ls_frame m') = nlp_lbz (ls_frame m)" using assms by simp
  then show "nlp_lbz m' = nlp_lbz m" by (simp add: ls_frame_def)
  have "nlp_ubz (ls_frame m') = nlp_ubz (ls_frame m)" using assms by simp
  then show "nlp_ubz m' = nlp_ubz m" by (simp add: ls_frame_def)
qed

lemma ls_iterates_trans:
  assumes "ls_iterates P L M m' m''" shows "ls_iterates P L M m m' \<Longrightarrow> ls_iterates P L M m m''"
  using assms by (induction rule: ls_iterates.induct) (auto intro: ls_iterates.intros)

lemma ls_iterates_first:
  "ls_body P L M m = LsContinue m' \<Longrightarrow> ls_iterates P L M m' m'' \<Longrightarrow> ls_iterates P L M m m''"
  by (rule ls_iterates_trans[where m' = m']) (auto intro: ls_iterates.intros)


lemma ls_loop_iterates:
  assumes "ls_iterates P L M m m'" shows "ls_loop P L M m = ls_loop P L M m'"
  using assms
proof (induction rule: ls_iterates.induct)
  case ls_iterates_start
  show ?case by simp
next
  case (ls_iterates_round m' m'')
  have "ls_loop P L M m' = ls_loop P L M m''"
    using ls_iterates_round.hyps(2) by (subst ls_loop.simps) simp
  with ls_iterates_round.IH show ?case by simp
qed


lemma ls_loop_bounded:
  assumes ok: "\<And>m'. ls_iterates P L M m m' \<Longrightarrow> nlp_fg P (ls_candidate P m') (nlp_p m') \<noteq> None"
    and lt: "ls_iter m < max_iter_ls P" and n: "n = nat (max_iter_ls P - ls_iter m)"
  shows "\<exists>m'. ls_loop P L M m = Some m' \<and> ls_iter m < ls_iter m' \<and> ls_iter m' \<le> max_iter_ls P"
  using ok lt n
proof (induction n arbitrary: m)
  case 0
  then show ?case by simp
next
  case (Suc n)
  from Suc.prems(1)[OF ls_iterates_start] obtain fk g
    where ev: "nlp_fg P (ls_candidate P m) (nlp_p m) = Some (fk, g)" by auto
  show ?case
  proof (cases "ls_body P L M m")
    case (LsBreak mb)
    then have "ls_loop P L M m = Some mb" by (subst ls_loop.simps) simp
    with ls_body_Break_frame[OF LsBreak] Suc.prems(2) show ?thesis by simp
  next
    case (LsContinue mc)
    from ls_body_Continue_frame[OF LsContinue] have it: "ls_iter mc = ls_iter m + 1" by simp
    from LsContinue ev have "ls_iter m + 1 \<noteq> max_iter_ls P"
      by (auto simp: ls_body_evaluated Let_def split: if_splits)
    with it Suc.prems(2) have lt: "ls_iter mc < max_iter_ls P" by simp
    from it Suc.prems(3) have n: "n = nat (max_iter_ls P - ls_iter mc)" by simp
    have "\<And>m'. ls_iterates P L M mc m' \<Longrightarrow> nlp_fg P (ls_candidate P m') (nlp_p m') \<noteq> None"
      using Suc.prems(1) ls_iterates_first[OF LsContinue] by blast
    from Suc.IH[OF this lt n] obtain m'
      where "ls_loop P L M mc = Some m'" "ls_iter mc < ls_iter m'" "ls_iter m' \<le> max_iter_ls P"
      by auto
    moreover have "ls_loop P L M m = ls_loop P L M mc"
      using LsContinue by (subst ls_loop.simps) simp
    ultimately show ?thesis using it by simp
  qed
qed

subsection \<open>Failures of the callables\<close>

lemma solve_loop_Return1:
  "sqp_iteration P m = Some (Return1 mr) \<Longrightarrow> solve_loop P m = Some (1, mr)"
  by (subst solve_loop.simps) simp

lemma solve_hessian_None:
  "solve_hessian P m = None \<longleftrightarrow>
     exact_hessian P \<and>
     nlp_hess_l P (take (nx P) (nlp_z m)) (nlp_p m) 1 (drop (nx P) (nlp_lam m)) = None"
  by (auto simp: solve_hessian_def Let_def split: option.splits)

lemma solve_eval_None:
  "solve_eval P m = None \<longleftrightarrow> nlp_jac_fg P (take (nx P) (nlp_z m)) (nlp_p m) = None"
  by (auto simp: solve_eval_def Let_def split: option.splits)

subsection \<open>The flag of the QP subsolver\<close>

lemma ls_loop_cong:
  assumes eq: "ls_body P' = ls_body P"
  shows "ls_loop P' L M m = ls_loop P L M m"
proof -
  have dir: "ls_loop P L M m = Some r" if b: "ls_body P = ls_body Q" and a: "ls_loop Q L M m = Some r"
    for P Q L M m r
  proof -
    let ?Q = "\<lambda>(((Q, L), M), m) r. \<forall>P. ls_body P = ls_body Q \<longrightarrow> ls_loop P L M m = Some r"
    have "?Q (((Q, L), M), m) r"
    proof (rule ls_loop.raw_induct[where Pa = ?Q, OF _ a])
      fix loop Q L M m r
      assume IH: "\<And>Q L M m r. loop Q L M m = Some r \<Longrightarrow> ?Q (((Q, L), M), m) r"
        and step: "(case ls_body Q L M m of LsBreak m' \<Rightarrow> Some m'
                    | LsContinue m' \<Rightarrow> loop Q L M m') = Some r"
      show "?Q (((Q, L), M), m) r"
      proof (clarify)
        fix P assume b: "ls_body P = ls_body Q"
        show "ls_loop P L M m = Some r"
        proof (cases "ls_body Q L M m")
          case (LsBreak mb)
          with step b show ?thesis by (subst ls_loop.simps) simp
        next
          case (LsContinue mc)
          with step have "loop Q L M mc = Some r" by simp
          from IH[OF this] b have "ls_loop P L M mc = Some r" by simp
          with LsContinue b show ?thesis by (subst ls_loop.simps) simp
        qed
      qed
    qed
    with b show ?thesis by simp
  qed
  show ?thesis
  proof (cases "ls_loop P L M m")
    case None
    show ?thesis
    proof (cases "ls_loop P' L M m")
      case None
      with \<open>ls_loop P L M m = None\<close> show ?thesis by simp
    next
      case (Some r)
      from dir[OF eq[symmetric] Some] None show ?thesis by simp
    qed
  next
    case (Some r)
    from dir[OF eq Some] Some show ?thesis by simp
  qed
qed

lemma solve_loop_cong:
  assumes eq: "sqp_iteration P' = sqp_iteration P"
  shows "solve_loop P' m = solve_loop P m"
proof -
  have dir: "solve_loop P m = Some r" if b: "sqp_iteration P = sqp_iteration Q"
    and a: "solve_loop Q m = Some r" for P Q m r
  proof -
    let ?Q = "\<lambda>(Q, m) (r :: int \<times> SqpmethodMemory).
                \<forall>P. sqp_iteration P = sqp_iteration Q \<longrightarrow> solve_loop P m = Some r"
    have "?Q (Q, m) r"
    proof (rule solve_loop.raw_induct[where Pa = ?Q, OF _ a])
      fix loop Q m r
      assume IH: "\<And>Q m r. loop Q m = Some r \<Longrightarrow> ?Q (Q, m) r"
        and step: "(case sqp_iteration Q m of None \<Rightarrow> None
                  | Some (Next m') \<Rightarrow> loop Q m' | Some (Break m') \<Rightarrow> Some (0, m')
                  | Some (Return1 m') \<Rightarrow> Some (1, m')) = Some r"
      show "?Q (Q, m) r"
      proof (clarify)
        fix P assume b: "sqp_iteration P = sqp_iteration Q"
        show "solve_loop P m = Some r"
        proof (cases "sqp_iteration Q m")
          case None
          with step show ?thesis by simp
        next
          case (Some c)
          show ?thesis
          proof (cases c)
            case (Next m')
            with Some step have "loop Q m' = Some r" by simp
            from IH[OF this] b have "solve_loop P m' = Some r" by simp
            with Some Next b show ?thesis by (subst solve_loop.simps) simp
          next
            case (Break mb)
            with Some step b show ?thesis by (subst solve_loop.simps) simp
          next
            case (Return1 mr)
            with Some step b show ?thesis by (subst solve_loop.simps) simp
          qed
        qed
      qed
    qed
    with b show ?thesis by simp
  qed
  show ?thesis
  proof (cases "solve_loop P m")
    case None
    show ?thesis
    proof (cases "solve_loop P' m")
      case None
      with \<open>solve_loop P m = None\<close> show ?thesis by simp
    next
      case (Some r)
      from dir[OF eq[symmetric] Some] None show ?thesis by simp
    qed
  next
    case (Some r)
    from dir[OF eq Some] Some show ?thesis by simp
  qed
qed

lemma qpsol_flag_unused:
  fixes P :: Sqpmethod and flag :: "conic_input \<Rightarrow> int"
  defines "P' \<equiv> P\<lparr>qpsol := \<lambda>a. (flag a, snd (qpsol P a))\<rparr>"
  shows "solve P' m = solve P m"
proof -
  have fields: "nx P' = nx P" "ng P' = ng P" "beta P' = beta P" "c1 P' = c1 P"
    "max_iter_ls P' = max_iter_ls P" "nlp_fg P' = nlp_fg P" "merit_memsize P' = merit_memsize P"
    "nlp_jac_fg P' = nlp_jac_fg P" "nlp_hess_l P' = nlp_hess_l P" "callback P' = callback P"
    "min_iter P' = min_iter P" "max_iter P' = max_iter P" "tol_pr P' = tol_pr P"
    "tol_du P' = tol_du P" "min_step_size P' = min_step_size P"
    "exact_hessian P' = exact_hessian P" "regularize P' = regularize P"
    "lbfgs_memory P' = lbfgs_memory P" "\<And>a. snd (qpsol P' a) = snd (qpsol P a)"
    by (simp_all add: P'_def)
  have b: "ls_body P' = ls_body P"
    unfolding ls_body_def fields by (rule refl)
  have ls: "solve_linesearch P' = solve_linesearch P"
    unfolding solve_linesearch_def solve_merit_def fields ls_loop_cong[OF b] by (rule refl)
  have qp: "solve_qp_step P' = solve_qp_step P"
    unfolding solve_qp_step_def solve_QP_def fields by (rule refl)
  have ev: "solve_eval P' = solve_eval P"
    unfolding solve_eval_def fields by (rule refl)
  have cr: "solve_criteria P' = solve_criteria P"
    unfolding solve_criteria_def pr_inf_def du_inf_def dx_norminf_def fields by (rule refl)
  have he: "solve_hessian P' = solve_hessian P"
    unfolding solve_hessian_def fields by (rule refl)
  have st: "solve_take_step P' = solve_take_step P"
    unfolding solve_take_step_def fields by (rule refl)
  have it: "sqp_iteration P' = sqp_iteration P"
    unfolding sqp_iteration_def ls qp ev cr he st by (rule refl)
  have "solve_reset P' m = solve_reset P m" by (simp add: solve_reset_def P'_def)
  with solve_loop_cong[OF it] show ?thesis by (simp add: solve_def)
qed

subsection \<open>What the stages of a round leave alone\<close>

lemma solve_eval_keeps:
  assumes "solve_eval P m = Some m1"
  shows "return_status m1 = return_status m" "success m1 = success m"
    "unified_return_status m1 = unified_return_status m" "iter_count m1 = iter_count m"
    "sigma m1 = sigma m" "dx m1 = dx m" "Bk m1 = Bk m" "nlp_lam m1 = nlp_lam m"
    "gLag_old m1 = gLag_old m" "merit_mem m1 = merit_mem m" "merit_ind m1 = merit_ind m"
    "reg m1 = reg m"
  using assms by (auto simp: solve_eval_def Let_def split: option.splits)

lemma solve_hessian_keeps:
  assumes "solve_hessian P m = Some m2"
  shows "return_status m2 = return_status m" "success m2 = success m"
    "unified_return_status m2 = unified_return_status m" "iter_count m2 = iter_count m"
    "sigma m2 = sigma m" "dx m2 = dx m" "nlp_lam m2 = nlp_lam m" "nlp_z m2 = nlp_z m"
    "gf m2 = gf m" "merit_mem m2 = merit_mem m" "merit_ind m2 = merit_ind m"
    "nlp_lbz m2 = nlp_lbz m" "nlp_ubz m2 = nlp_ubz m" "nlp_f m2 = nlp_f m"
  using assms by (auto simp: solve_hessian_def Let_def split: option.splits if_splits)

lemma solve_qp_step_keeps:
  "return_status (solve_qp_step P m) = return_status m" "success (solve_qp_step P m) = success m"
  "unified_return_status (solve_qp_step P m) = unified_return_status m"
  "iter_count (solve_qp_step P m) = iter_count m + 1" "sigma (solve_qp_step P m) = sigma m"
  "Bk (solve_qp_step P m) = Bk m" "nlp_lam (solve_qp_step P m) = nlp_lam m"
  "nlp_z (solve_qp_step P m) = nlp_z m" "gf (solve_qp_step P m) = gf m"
  "merit_mem (solve_qp_step P m) = merit_mem m" "merit_ind (solve_qp_step P m) = merit_ind m"
  "reg (solve_qp_step P m) = reg m" "nlp_f (solve_qp_step P m) = nlp_f m"
  "nlp_lbz (solve_qp_step P m) = nlp_lbz m" "nlp_ubz (solve_qp_step P m) = nlp_ubz m"
  by (simp_all add: solve_qp_step_def Let_def split: prod.splits)

lemma solve_merit_keeps:
  assumes "solve_merit P m = (m1, L, M)"
  shows "ls_frame m1 = ls_frame (m\<lparr>sigma := sigma m1, merit_mem := merit_mem m1,
                                     merit_ind := merit_ind m1\<rparr>)"
    "sigma m1 = max (sigma m) (1.01 * casadi_norm_inf (nx P + ng P) (dlam m))"
    "t_ls m1 = t_ls m" "ls_iter m1 = ls_iter m" "ls_success m1 = ls_success m"
  using assms by (auto simp: solve_merit_def Let_def ls_frame_def)

lemma solve_linesearch_keeps:
  assumes "solve_linesearch P m = Some m3"
  shows "return_status m3 = return_status m \<and> success m3 = success m \<and>
    unified_return_status m3 = unified_return_status m \<and> iter_count m3 = iter_count m \<and>
    sigma m3 = (if 0 < max_iter_ls P
                 then max (sigma m) (1.01 * casadi_norm_inf (nx P + ng P) (dlam m))
                 else sigma m) \<and>
    dlam m3 = dlam m \<and> Bk m3 = Bk m \<and> reg m3 = reg m \<and> nlp_z m3 = nlp_z m \<and> gf m3 = gf m"
proof (cases "0 < max_iter_ls P")
  case False
  with assms show ?thesis by (auto simp: solve_linesearch_def Let_def)
next
  case True
  let ?m0 = "m\<lparr>t_ls := 1, ls_iter := 0, ls_success := True\<rparr>"
  obtain m1 L M where sm: "solve_merit P ?m0 = (m1, L, M)" by (cases "solve_merit P ?m0")
  with True assms obtain m2 where ll: "ls_loop P L M m1 = Some m2"
    and m3: "m3 = m2\<lparr>nlp_lam := casadi_axpy (nx P + ng P) (t_ls m2) (dlam m2)
                       (casadi_scal (nx P + ng P) (1 - t_ls m2) (nlp_lam m2)),
                   dx := casadi_scal (nx P) (t_ls m2) (dx m2)\<rparr>"
    by (auto simp: solve_linesearch_def Let_def split: option.splits)
  note f2 = ls_frame_fields[OF ls_loop_frame[OF ll]]
  note f1 = ls_frame_fields[OF solve_merit_keeps(1)[OF sm]] solve_merit_keeps(2)[OF sm]
  from True m3 f2 f1 show ?thesis by simp
qed

lemma solve_take_step_keeps:
  "return_status (solve_take_step P m) = return_status m"
  "success (solve_take_step P m) = success m"
  "unified_return_status (solve_take_step P m) = unified_return_status m"
  "iter_count (solve_take_step P m) = iter_count m" "sigma (solve_take_step P m) = sigma m"
  "dlam (solve_take_step P m) = dlam m" "Bk (solve_take_step P m) = Bk m"
  "reg (solve_take_step P m) = reg m" "dx (solve_take_step P m) = dx m"
  "nlp_lam (solve_take_step P m) = nlp_lam m"
  "nlp_z (solve_take_step P m) = casadi_axpy (nx P) 1 (dx m) (nlp_z m)"
  by (simp_all add: solve_take_step_def Let_def)

lemma sqp_iteration_Next:
  "sqp_iteration P m = Some (Next m') \<longleftrightarrow>
     (\<exists>m1 m2 m3. solve_eval P m = Some m1 \<and> solve_criteria P m1 = None \<and>
        solve_hessian P m1 = Some m2 \<and> solve_linesearch P (solve_qp_step P m2) = Some m3 \<and>
        m' = solve_take_step P m3)"
  by (auto simp: sqp_iteration_def split: option.splits)

lemma sqp_iteration_Next_keeps:
  assumes "sqp_iteration P m = Some (Next m')"
  shows "return_status m' = return_status m" "success m' = success m"
    "unified_return_status m' = unified_return_status m" "iter_count m' = iter_count m + 1"
    "sigma m' = (if 0 < max_iter_ls P
                 then max (sigma m) (1.01 * casadi_norm_inf (nx P + ng P) (dlam m'))
                 else sigma m)"
proof -
  from assms obtain m1 m2 m3 where ev: "solve_eval P m = Some m1"
    and he: "solve_hessian P m1 = Some m2"
    and ls: "solve_linesearch P (solve_qp_step P m2) = Some m3"
    and m': "m' = solve_take_step P m3"
    by (auto simp: sqp_iteration_Next)
  note k = solve_take_step_keeps[of P m3] solve_qp_step_keeps[of P m2]
    solve_hessian_keeps[OF he] solve_eval_keeps[OF ev]
  from solve_linesearch_keeps[OF ls]
  have l: "return_status m3 = return_status (solve_qp_step P m2)"
    "success m3 = success (solve_qp_step P m2)"
    "unified_return_status m3 = unified_return_status (solve_qp_step P m2)"
    "iter_count m3 = iter_count (solve_qp_step P m2)"
    "sigma m3 = (if 0 < max_iter_ls P
                 then max (sigma (solve_qp_step P m2))
                        (1.01 * casadi_norm_inf (nx P + ng P) (dlam (solve_qp_step P m2)))
                 else sigma (solve_qp_step P m2))"
    "dlam m3 = dlam (solve_qp_step P m2)" by simp_all
  show "return_status m' = return_status m" "success m' = success m"
    "unified_return_status m' = unified_return_status m" "iter_count m' = iter_count m + 1"
    "sigma m' = (if 0 < max_iter_ls P
                 then max (sigma m) (1.01 * casadi_norm_inf (nx P + ng P) (dlam m'))
                 else sigma m)"
    unfolding m' by (simp_all add: k l)
qed

lemma solve_criteria_keeps:
  assumes "solve_criteria P m = Some mb"
  shows "sigma mb = sigma m" "reg mb = reg m" "Bk mb = Bk m" "nlp_z mb = nlp_z m"
    "nlp_lam mb = nlp_lam m" "dx mb = dx m"
  using assms by (auto simp: solve_criteria_def split: if_splits)

lemma solve_criteria_status:
  assumes "solve_criteria P m = Some mb"
  shows "return_status mb \<in> {''User_Requested_Stop'', ''Solve_Succeeded'',
           ''Maximum_Iterations_Exceeded'', ''Search_Direction_Becomes_Too_Small''}"
  using assms by (auto simp: solve_criteria_def split: if_splits)

lemma iterates_sigma:
  assumes "iterates P m m'" shows "sigma m \<le> sigma m'"
  using assms
proof (induction rule: iterates.induct)
  case iterates_start
  show ?case by simp
next
  case (iterates_round m' m'')
  from sqp_iteration_Next_keeps(5)[OF iterates_round.hyps(2)] have "sigma m' \<le> sigma m''"
    by (simp split: if_splits)
  with iterates_round.IH show ?case by simp
qed

subsection \<open>The stages in closed form\<close>

lemma smod_nonneg: "0 \<le> (k::int) \<Longrightarrow> 0 < l \<Longrightarrow> k smod l = k mod l"
  by (cases "k = 0") (simp_all add: signed_modulo_int_def)

lemma solve_eval_closed:
  "solve_eval P m =
     (case nlp_jac_fg P (take (nx P) (nlp_z m)) (nlp_p m) of
        None \<Rightarrow> None
      | Some (fv, gfv, gv, Jv) \<Rightarrow>
          Some (m\<lparr>nlp_f := fv, gf := gfv, nlp_z := take (nx P) (nlp_z m) @ gv, Jk := Jv,
                  gLag := casadi_axpy (nx P) 1 (nlp_lam m)
                            (casadi_mv_tr Jv (drop (nx P) (nlp_lam m))
                               (casadi_copy gfv (nx P) (gLag m)))\<rparr>))"
  by (simp add: solve_eval_def Let_def split: option.splits)

lemma solve_qp_step_closed:
  "solve_qp_step P m =
     m\<lparr>lbdz := casadi_axpy (nx P + ng P) (- 1) (nlp_z m)
                 (casadi_copy (nlp_lbz m) (nx P + ng P) (lbdz m)),
       ubdz := casadi_axpy (nx P + ng P) (- 1) (nlp_z m)
                 (casadi_copy (nlp_ubz m) (nx P + ng P) (ubdz m)),
       iter_count := iter_count m + 1,
       dx := fst (solve_QP P (Bk m) (gf m)
                 (casadi_axpy (nx P + ng P) (- 1) (nlp_z m)
                    (casadi_copy (nlp_lbz m) (nx P + ng P) (lbdz m)))
                 (casadi_axpy (nx P + ng P) (- 1) (nlp_z m)
                    (casadi_copy (nlp_ubz m) (nx P + ng P) (ubdz m)))
                 (Jk m) (casadi_fill (dx m) (nx P) 0)
                 (casadi_copy (nlp_lam m) (nx P + ng P) (dlam m))),
       dlam := snd (solve_QP P (Bk m) (gf m)
                 (casadi_axpy (nx P + ng P) (- 1) (nlp_z m)
                    (casadi_copy (nlp_lbz m) (nx P + ng P) (lbdz m)))
                 (casadi_axpy (nx P + ng P) (- 1) (nlp_z m)
                    (casadi_copy (nlp_ubz m) (nx P + ng P) (ubdz m)))
                 (Jk m) (casadi_fill (dx m) (nx P) 0)
                 (casadi_copy (nlp_lam m) (nx P + ng P) (dlam m)))\<rparr>"
  by (simp add: solve_qp_step_def Let_def split: prod.splits)

lemma solve_merit_closed:
  "solve_merit P m =
     (let sg = max (sigma m) (1.01 * casadi_norm_inf (nx P + ng P) (dlam m));
          viol = casadi_max_viol (nx P + ng P) (nlp_z m) (nlp_lbz m) (nlp_ubz m);
          mem = (merit_mem m)[nat (merit_ind m) := nlp_f m + sg * viol]
      in (m\<lparr>sigma := sg, merit_mem := mem,
            merit_ind := (merit_ind m + 1) smod merit_memsize P\<rparr>,
          casadi_dot (nx P) (dx m) (gf m) - sg * viol,
          casadi_vfmax (drop 1 mem) (min (merit_memsize P) (iter_count m) - 1) (mem ! 0)))"
  by (simp add: solve_merit_def Let_def)

lemma solve_take_step_closed:
  "solve_take_step P m =
     (if exact_hessian P then m\<lparr>nlp_z := casadi_axpy (nx P) 1 (dx m) (nlp_z m)\<rparr>
      else m\<lparr>nlp_z := casadi_axpy (nx P) 1 (dx m) (nlp_z m),
             gLag_old := casadi_axpy (nx P) 1 (nlp_lam m)
                           (casadi_mv_tr (Jk m) (drop (nx P) (nlp_lam m))
                              (casadi_copy (gf m) (nx P) (gLag_old m)))\<rparr>)"
  by (simp add: solve_take_step_def Let_def)

lemma solve_linesearch_on:
  assumes "0 < max_iter_ls P"
    and "solve_merit P (m\<lparr>t_ls := 1, ls_iter := 0, ls_success := True\<rparr>) = (m1, L, M)"
    and "ls_loop P L M m1 = Some m2"
  shows "solve_linesearch P m =
     Some (m2\<lparr>nlp_lam := casadi_axpy (nx P + ng P) (t_ls m2) (dlam m2)
                           (casadi_scal (nx P + ng P) (1 - t_ls m2) (nlp_lam m2)),
               dx := casadi_scal (nx P) (t_ls m2) (dx m2)\<rparr>)"
  using assms by (simp add: solve_linesearch_def Let_def)

lemma solve_linesearch_off:
  assumes "\<not> 0 < max_iter_ls P"
  shows "solve_linesearch P m =
     Some (m\<lparr>t_ls := 1, ls_iter := 0, ls_success := True,
              nlp_lam := casadi_copy (dlam m) (nx P + ng P) (nlp_lam m)\<rparr>)"
  using assms by (simp add: solve_linesearch_def Let_def)

lemma sqp_iteration_NextI:
  assumes "solve_eval P m = Some m1" and "solve_criteria P m1 = None"
    and "solve_hessian P m1 = Some m2" and "solve_qp_step P m2 = mq"
    and "solve_linesearch P mq = Some m3" and "solve_take_step P m3 = m'"
  shows "sqp_iteration P m = Some (Next m')"
  using assms by (simp add: sqp_iteration_def)

subsection \<open>The kernels on whole buffers\<close>

lemma axpy_scal_lists:
  assumes "length l = n" and "length d = n"
  shows "casadi_axpy n a d (casadi_scal n s l) = map2 (\<lambda>li di. s * li + a * di) l d"
  using assms by (simp add: casadi_axpy_def casadi_scal_def zip_map1 case_prod_unfold)

lemma scal_list:
  assumes "length d = n"
  shows "casadi_scal n s d = map (\<lambda>di. s * di) d"
  using assms by (simp add: casadi_scal_def)

lemma copy_list:
  assumes "length src = n" and "length dst = n"
  shows "casadi_copy src n dst = src"
  using assms by (simp add: casadi_copy_def)

lemma axpy_scaled_step:
  assumes "length d = n"
  shows "casadi_axpy n 1 (map (\<lambda>di. s * di) d) zs
         = map2 (\<lambda>zi di. zi + s * di) (take n zs) d @ drop n zs"
  using assms by (simp add: casadi_axpy_def zip_map2 case_prod_unfold)

lemma solve_linesearch_result:
  assumes "solve_linesearch P m = Some m3"
  shows "dlam m3 = dlam m \<and> nlp_z m3 = nlp_z m \<and>
    (if 0 < max_iter_ls P
     then nlp_lam m3 = casadi_axpy (nx P + ng P) (t_ls m3) (dlam m)
                         (casadi_scal (nx P + ng P) (1 - t_ls m3) (nlp_lam m)) \<and>
          dx m3 = casadi_scal (nx P) (t_ls m3) (dx m)
     else nlp_lam m3 = casadi_copy (dlam m) (nx P + ng P) (nlp_lam m) \<and> dx m3 = dx m \<and>
          t_ls m3 = 1)"
proof (cases "0 < max_iter_ls P")
  case False
  with assms show ?thesis by (auto simp: solve_linesearch_def Let_def)
next
  case True
  let ?m0 = "m\<lparr>t_ls := 1, ls_iter := 0, ls_success := True\<rparr>"
  obtain m1 L M where sm: "solve_merit P ?m0 = (m1, L, M)" by (cases "solve_merit P ?m0")
  with True assms obtain m2 where ll: "ls_loop P L M m1 = Some m2"
    and m3: "m3 = m2\<lparr>nlp_lam := casadi_axpy (nx P + ng P) (t_ls m2) (dlam m2)
                       (casadi_scal (nx P + ng P) (1 - t_ls m2) (nlp_lam m2)),
                   dx := casadi_scal (nx P) (t_ls m2) (dx m2)\<rparr>"
    by (auto simp: solve_linesearch_def Let_def split: option.splits)
  note f2 = ls_frame_fields[OF ls_loop_frame[OF ll]]
  note f1 = ls_frame_fields[OF solve_merit_keeps(1)[OF sm]]
  from True m3 f2 f1 show ?thesis by simp
qed

subsection \<open>The run of the small problem\<close>

lemma ls_loop_BreakI:
  "ls_body P L M m = LsBreak m' \<Longrightarrow> ls_loop P L M m = Some m'"
  by (subst ls_loop.simps) simp

lemma ls_loop_ContinueI:
  "ls_body P L M m = LsContinue m' \<Longrightarrow> ls_loop P L M m' = r \<Longrightarrow> ls_loop P L M m = r"
  by (subst ls_loop.simps) simp

lemmas ex_defs = ex_P_def ex_B_def ex_F_def ex_m_def ex_e0_def ex_q0_def ex_Bq0_def

lemma ex_eval0:
  "solve_eval ex_P (solve_reset ex_P ex_m) = Some ex_e0"
  "solve_eval ex_B (solve_reset ex_B ex_m) = Some ex_e0"
  "solve_eval ex_F (solve_reset ex_F ex_m) = Some ex_e0"
  by (simp_all add: solve_eval_closed solve_reset_def kernel_defs ex_defs Let_def)

lemma ex_criteria0:
  "solve_criteria ex_P ex_e0 = None" "solve_criteria ex_B ex_e0 = None"
  "solve_criteria ex_F ex_e0 = None"
  by (simp_all add: solve_criteria_def pr_inf_def du_inf_def dx_norminf_def kernel_defs ex_defs)

lemma ex_hessian0:
  "solve_hessian ex_P ex_e0 = Some (ex_e0\<lparr>Bk := [[2]]\<rparr>)"
  "solve_hessian ex_B ex_e0 = Some (ex_e0\<lparr>Bk := [[1]]\<rparr>)"
  "solve_hessian ex_F ex_e0 = Some (ex_e0\<lparr>Bk := [[2]]\<rparr>)"
  by (simp_all add: solve_hessian_def kernel_defs ex_defs Let_def)

lemma ex_qp0:
  "solve_qp_step ex_P (ex_e0\<lparr>Bk := [[2]]\<rparr>) = ex_q0"
  "solve_qp_step ex_B (ex_e0\<lparr>Bk := [[1]]\<rparr>) = ex_Bq0"
  "solve_qp_step ex_F (ex_e0\<lparr>Bk := [[2]]\<rparr>) = ex_q0"
  by (simp_all add: solve_qp_step_closed solve_QP_def kernel_defs ex_defs Let_def)

lemma ex_round0: "sqp_iteration ex_P (solve_reset ex_P ex_m) = Some (Next ex_m1)"
proof -
  let ?s = "ex_q0\<lparr>t_ls := 1, ls_iter := 0, merit_mem := [1, 0, 0, 0], merit_ind := 1\<rparr>"
  let ?l = "?s\<lparr>ls_iter := 1\<rparr>"
  have me: "solve_merit ex_P (ex_q0\<lparr>t_ls := 1, ls_iter := 0, ls_success := True\<rparr>) = (?s, - 2, 1)"
    by (simp add: solve_merit_closed kernel_defs smod_nonneg ex_defs Let_def)
  have lb: "ls_body ex_P (- 2) 1 ?s = LsBreak ?l"
    by (simp add: ls_body_def kernel_defs ex_defs Let_def)
  have "0 < max_iter_ls ex_P" by (simp add: ex_P_def)
  from solve_linesearch_on[OF this me ls_loop_BreakI[OF lb]]
  have ls: "solve_linesearch ex_P ex_q0 = Some ?l"
    by (simp add: kernel_defs ex_defs)
  have st: "solve_take_step ex_P ?l = ex_m1"
    by (simp add: solve_take_step_closed kernel_defs ex_defs ex_m1_def)
  show ?thesis
    by (rule sqp_iteration_NextI[OF ex_eval0(1) ex_criteria0(1) ex_hessian0(1) ex_qp0(1) ls st])
qed

lemma ex_B_round0: "sqp_iteration ex_B (solve_reset ex_B ex_m) = Some (Next ex_B1)"
proof -
  let ?s = "ex_Bq0\<lparr>t_ls := 1, ls_iter := 0, merit_mem := [1, 0, 0, 0], merit_ind := 1\<rparr>"
  let ?c = "?s\<lparr>ls_iter := 1, z_cand := [- 1], t_ls := 4 / 5\<rparr>"
  let ?l = "?s\<lparr>ls_iter := 2, z_cand := [- (3 / 5)], t_ls := 4 / 5\<rparr>"
  let ?d = "?l\<lparr>dx := [- (8 / 5)]\<rparr>"
  have me: "solve_merit ex_B (ex_Bq0\<lparr>t_ls := 1, ls_iter := 0, ls_success := True\<rparr>) = (?s, - 4, 1)"
    by (simp add: solve_merit_closed kernel_defs smod_nonneg ex_defs Let_def)
  have b1: "ls_body ex_B (- 4) 1 ?s = LsContinue ?c"
    by (simp add: ls_body_def kernel_defs ex_defs Let_def)
  have b2: "ls_body ex_B (- 4) 1 ?c = LsBreak ?l"
    by (simp add: ls_body_def kernel_defs ex_defs Let_def)
  have "0 < max_iter_ls ex_B" by (simp add: ex_B_def ex_P_def)
  from solve_linesearch_on[OF this me ls_loop_ContinueI[OF b1 ls_loop_BreakI[OF b2]]]
  have ls: "solve_linesearch ex_B ex_Bq0 = Some ?d"
    by (simp add: kernel_defs ex_defs)
  have st: "solve_take_step ex_B ?d = ex_B1"
    by (simp add: solve_take_step_closed kernel_defs ex_defs ex_B1_def)
  show ?thesis
    by (rule sqp_iteration_NextI[OF ex_eval0(2) ex_criteria0(2) ex_hessian0(2) ex_qp0(2) ls st])
qed

lemma ex_F_round0: "sqp_iteration ex_F (solve_reset ex_F ex_m) = Some (Next ex_F1)"
proof -
  let ?l = "ex_q0\<lparr>t_ls := 1\<rparr>"
  have "\<not> 0 < max_iter_ls ex_F" by (simp add: ex_F_def)
  from solve_linesearch_off[OF this] have ls: "solve_linesearch ex_F ex_q0 = Some ?l"
    by (simp add: kernel_defs ex_defs)
  have st: "solve_take_step ex_F ?l = ex_F1"
    by (simp add: solve_take_step_closed kernel_defs ex_defs ex_F1_def)
  show ?thesis
    by (rule sqp_iteration_NextI[OF ex_eval0(3) ex_criteria0(3) ex_hessian0(3) ex_qp0(3) ls st])
qed

lemma ex_round1: "sqp_iteration ex_P ex_m1 = Some (Break ex_mf)"
proof -
  let ?e = "ex_m1\<lparr>nlp_f := 0, gf := [0], gLag := [0]\<rparr>"
  have ev: "solve_eval ex_P ex_m1 = Some ?e"
    by (simp add: solve_eval_closed kernel_defs ex_P_def ex_m_def ex_m1_def)
  have cr: "solve_criteria ex_P ?e = Some ex_mf"
    by (simp add: solve_criteria_def pr_inf_def du_inf_def dx_norminf_def kernel_defs
        ex_P_def ex_m_def ex_m1_def ex_mf_def)
  from ev cr show ?thesis by (auto simp: sqp_iteration_Break)
qed

lemma ex_iterates: "iterates ex_P (solve_reset ex_P ex_m) ex_m1"
  by (rule iterates_round[OF iterates_start ex_round0])

lemma ex_solve: "solve ex_P ex_m = Some (0, ex_mf)"
  using solve_loop_iterates[OF ex_iterates] solve_loop_Break[OF ex_round1]
  by (simp add: solve_def)

subsection \<open>The merit memory\<close>

lemma vfmax_Max:
  "casadi_vfmax v n acc = Max (insert acc (set (take (nat n) v)))"
proof -
  have "foldl max a xs = Max (insert a (set xs))" for a :: real and xs
  proof (induction xs arbitrary: a)
    case Nil
    show ?case by simp
  next
    case (Cons x xs)
    have "Max (insert (max a x) (set xs)) = Max (insert a (insert x (set xs)))"
      by (cases "set xs = {}") (simp_all add: max.assoc max.commute max.left_commute)
    with Cons show ?case by simp
  qed
  then show ?thesis by (simp add: casadi_vfmax_def)
qed

lemma window_set:
  assumes "mem \<noteq> []" and "1 \<le> k"
  shows "insert (mem ! 0) (set (take (k - 1) (drop 1 mem))) = set (take k mem)"
proof -
  from assms obtain x xs where m: "mem = x # xs" by (cases mem) auto
  from assms obtain j where k: "k = Suc j" by (cases k) auto
  show ?thesis by (simp add: m k)
qed

lemma solve_merit_stage:
  assumes "0 < merit_memsize P" and "0 \<le> merit_ind m" and "merit_ind m < merit_memsize P"
    and "length (merit_mem m) = nat (merit_memsize P)" and "1 \<le> iter_count m"
    and "sg = max (sigma m) (1.01 * casadi_norm_inf (nx P + ng P) (dlam m))"
    and "viol = casadi_max_viol (nx P + ng P) (nlp_z m) (nlp_lbz m) (nlp_ubz m)"
    and "mem = (merit_mem m)[nat (merit_ind m) := nlp_f m + sg * viol]"
  shows "solve_merit P m =
      (m\<lparr>sigma := sg, merit_mem := mem, merit_ind := (merit_ind m + 1) mod merit_memsize P\<rparr>,
       casadi_dot (nx P) (dx m) (gf m) - sg * viol,
       casadi_vfmax (drop 1 mem) (min (merit_memsize P) (iter_count m) - 1) (mem ! 0))"
    and "casadi_vfmax (drop 1 mem) (min (merit_memsize P) (iter_count m) - 1) (mem ! 0)
          = Max (set (take (nat (min (merit_memsize P) (iter_count m))) mem))"
proof -
  let ?k = "min (merit_memsize P) (iter_count m)"
  from assms show "solve_merit P m =
      (m\<lparr>sigma := sg, merit_mem := mem, merit_ind := (merit_ind m + 1) mod merit_memsize P\<rparr>,
       casadi_dot (nx P) (dx m) (gf m) - sg * viol,
       casadi_vfmax (drop 1 mem) (min (merit_memsize P) (iter_count m) - 1) (mem ! 0))"
    by (simp add: solve_merit_closed Let_def smod_nonneg)
  from assms have len: "length mem = nat (merit_memsize P)" by simp
  with assms have ne: "mem \<noteq> []" by auto
  from assms have "1 \<le> ?k" by (simp add: min_def)
  then have k1: "1 \<le> nat ?k" by linarith
  have "nat (?k - 1) = nat ?k - 1" by simp
  with window_set[OF ne k1]
  have "insert (mem ! 0) (set (take (nat (?k - 1)) (drop 1 mem))) = set (take (nat ?k) mem)"
    by simp
  then show "casadi_vfmax (drop 1 mem) (?k - 1) (mem ! 0) = Max (set (take (nat ?k) mem))"
    by (simp only: vfmax_Max)
qed

lemma solve_take_step_merit:
  "merit_mem (solve_take_step P m) = merit_mem m" "merit_ind (solve_take_step P m) = merit_ind m"
  by (simp_all add: solve_take_step_def Let_def)

lemma solve_linesearch_loop:
  assumes "0 < max_iter_ls P"
    and "solve_merit P (m\<lparr>t_ls := 1, ls_iter := 0, ls_success := True\<rparr>) = (m1, L, M)"
  shows "solve_linesearch P m =
     map_option (\<lambda>m2. m2\<lparr>nlp_lam := casadi_axpy (nx P + ng P) (t_ls m2) (dlam m2)
                                     (casadi_scal (nx P + ng P) (1 - t_ls m2) (nlp_lam m2)),
                         dx := casadi_scal (nx P) (t_ls m2) (dx m2)\<rparr>)
       (ls_loop P L M m1)"
  using assms by (simp add: solve_linesearch_def Let_def split: option.splits)

lemma sqp_iteration_linesearch:
  assumes "solve_eval P m = Some m1" and "solve_criteria P m1 = None"
    and "solve_hessian P m1 = Some m2"
  shows "sqp_iteration P m =
     map_option (\<lambda>m3. Next (solve_take_step P m3)) (solve_linesearch P (solve_qp_step P m2))"
  using assms by (simp add: sqp_iteration_def split: option.splits)

lemma solve_linesearch_merit:
  assumes "solve_linesearch P m = Some m3"
  shows "length (merit_mem m3) = length (merit_mem m)"
    "merit_ind m3 = (if 0 < max_iter_ls P then (merit_ind m + 1) smod merit_memsize P
                     else merit_ind m)"
proof -
  have "length (merit_mem m3) = length (merit_mem m) \<and>
    merit_ind m3 = (if 0 < max_iter_ls P then (merit_ind m + 1) smod merit_memsize P
                     else merit_ind m)"
  proof (cases "0 < max_iter_ls P")
    case False
    with assms show ?thesis by (auto simp: solve_linesearch_def Let_def)
  next
    case True
    let ?m0 = "m\<lparr>t_ls := 1, ls_iter := 0, ls_success := True\<rparr>"
    obtain m1 L M where sm: "solve_merit P ?m0 = (m1, L, M)" by (cases "solve_merit P ?m0")
    from assms solve_linesearch_loop[OF True sm] obtain m2 where ll: "ls_loop P L M m1 = Some m2"
      and m3: "m3 = m2\<lparr>nlp_lam := casadi_axpy (nx P + ng P) (t_ls m2) (dlam m2)
                       (casadi_scal (nx P + ng P) (1 - t_ls m2) (nlp_lam m2)),
                   dx := casadi_scal (nx P) (t_ls m2) (dx m2)\<rparr>"
      by auto
    note f2 = ls_frame_fields(8,9)[OF ls_loop_frame[OF ll]]
    from sm have "length (merit_mem m1) = length (merit_mem m)"
      "merit_ind m1 = (merit_ind m + 1) smod merit_memsize P"
      by (auto simp: solve_merit_closed Let_def)
    with True m3 f2 show ?thesis by simp
  qed
  then show "length (merit_mem m3) = length (merit_mem m)"
    "merit_ind m3 = (if 0 < max_iter_ls P then (merit_ind m + 1) smod merit_memsize P
                     else merit_ind m)" by simp_all
qed

lemma sqp_iteration_Next_merit:
  assumes "sqp_iteration P m = Some (Next m')"
  shows "length (merit_mem m') = length (merit_mem m)"
    "merit_ind m' = (if 0 < max_iter_ls P then (merit_ind m + 1) smod merit_memsize P
                     else merit_ind m)"
proof -
  from assms obtain m1 m2 m3 where ev: "solve_eval P m = Some m1"
    and he: "solve_hessian P m1 = Some m2"
    and ls: "solve_linesearch P (solve_qp_step P m2) = Some m3"
    and m': "m' = solve_take_step P m3"
    by (auto simp: sqp_iteration_Next)
  note k = solve_take_step_merit[of P m3] solve_qp_step_keeps(10,11)[of P m2]
    solve_hessian_keeps(10,11)[OF he] solve_eval_keeps(10,11)[OF ev]
  show "length (merit_mem m') = length (merit_mem m)"
    "merit_ind m' = (if 0 < max_iter_ls P then (merit_ind m + 1) smod merit_memsize P
                     else merit_ind m)"
    unfolding m' using solve_linesearch_merit[OF ls] by (simp_all add: k)
qed

lemma iterates_merit_invariant:
  assumes "0 < merit_memsize P" and "length (merit_mem m0) = nat (merit_memsize P)"
    and "iterates P (solve_reset P m0) m"
  shows "0 \<le> merit_ind m \<and> merit_ind m < merit_memsize P \<and>
         length (merit_mem m) = nat (merit_memsize P) \<and> 0 \<le> iter_count m"
  using assms(3)
proof (induction rule: iterates.induct)
  case iterates_start
  from assms(1,2) show ?case by (simp add: solve_reset_def Let_def)
next
  case (iterates_round m' m'')
  note st = sqp_iteration_Next_merit[OF iterates_round.hyps(2)]
    sqp_iteration_Next_keeps(4)[OF iterates_round.hyps(2)]
  from iterates_round.IH assms(1) have "0 \<le> (merit_ind m' + 1) smod merit_memsize P"
    "(merit_ind m' + 1) smod merit_memsize P < merit_memsize P"
    by (simp_all add: smod_nonneg)
  with iterates_round.IH st show ?case by simp
qed

subsection \<open>The reset of the limited-memory Hessian\<close>

lemma bfgs_reset_shape:
  "length (casadi_bfgs_reset B) = length B"
  "i < length B \<Longrightarrow> length (casadi_bfgs_reset B ! i) = length (B ! i)"
  by (simp_all add: casadi_bfgs_reset_def)

lemma bfgs_reset_identity:
  "i < length B \<Longrightarrow> j < length (B ! i) \<Longrightarrow>
     casadi_bfgs_reset B ! i ! j = (if i = j then 1 else 0)"
  by (simp add: casadi_bfgs_reset_def)

lemma bfgs_reset_fill:
  "casadi_bfgs_reset (map (\<lambda>row. casadi_fill row (length row) 1) B) = casadi_bfgs_reset B"
  by (simp add: casadi_bfgs_reset_def casadi_fill_def)

lemma ex_B_eval1: "solve_eval ex_B ex_B1 = Some ex_Be1"
  by (simp add: solve_eval_closed kernel_defs ex_defs ex_B1_def ex_Be1_def)

lemma ex_B_criteria1: "solve_criteria ex_B ex_Be1 = None"
  by (simp add: solve_criteria_def pr_inf_def du_inf_def dx_norminf_def kernel_defs
      ex_defs ex_B1_def ex_Be1_def)

lemma ex_bfgs1: "casadi_bfgs [[1]] [- (8 / 5)] [- (6 / 5)] [2] = [[2]]"
  by (simp add: kernel_defs Let_def)

lemma ex_B_hessian1: "solve_hessian ex_B ex_Be1 = Some (ex_Be1\<lparr>Bk := [[2]]\<rparr>)"
proof -
  have "casadi_bfgs_reset (Bk ex_Be1) = [[1]]"
    by (simp add: casadi_bfgs_reset_def ex_defs ex_B1_def ex_Be1_def)
  moreover have "dx ex_Be1 = [- (8 / 5)]" "gLag ex_Be1 = [- (6 / 5)]" "gLag_old ex_Be1 = [2]"
    "iter_count ex_Be1 = 1" by (simp_all add: ex_defs ex_B1_def ex_Be1_def)
  moreover have "\<not> exact_hessian ex_B" "lbfgs_memory ex_B = 1" by (simp_all add: ex_defs)
  ultimately show ?thesis
    by (simp add: solve_hessian_def Let_def ex_bfgs1 signed_modulo_int_def)
qed


lemma ex_B_qp1:
  "solve_qp_step ex_B (ex_Be1\<lparr>Bk := [[2]]\<rparr>)
     = ex_Be1\<lparr>Bk := [[2]], lbdz := [- (47 / 5)], ubdz := [53 / 5], iter_count := 2,
         dx := [3 / 5], dlam := [0]\<rparr>"
  by (simp add: solve_qp_step_closed solve_QP_def kernel_defs ex_defs ex_B1_def ex_Be1_def
      Let_def)

lemma ex_B_round1: "sqp_iteration ex_B ex_B1 = Some (Next ex_B2)"
proof -
  let ?q = "ex_Be1\<lparr>Bk := [[2]], lbdz := [- (47 / 5)], ubdz := [53 / 5], iter_count := 2,
         dx := [3 / 5], dlam := [0]\<rparr>"
  let ?s = "?q\<lparr>t_ls := 1, ls_iter := 0, merit_mem := [1, 9 / 25, 0, 0], merit_ind := 2\<rparr>"
  let ?l = "?s\<lparr>ls_iter := 1, z_cand := [0]\<rparr>"
  have me: "solve_merit ex_B (?q\<lparr>t_ls := 1, ls_iter := 0, ls_success := True\<rparr>)
              = (?s, - (18 / 25), 1)"
    by (simp add: solve_merit_closed kernel_defs smod_nonneg ex_defs ex_B1_def ex_Be1_def
        Let_def)
  have lb: "ls_body ex_B (- (18 / 25)) 1 ?s = LsBreak ?l"
    by (simp add: ls_body_def kernel_defs ex_defs ex_B1_def ex_Be1_def Let_def)
  have "0 < max_iter_ls ex_B" by (simp add: ex_B_def ex_P_def)
  from solve_linesearch_on[OF this me ls_loop_BreakI[OF lb]]
  have ls: "solve_linesearch ex_B ?q = Some ?l"
    by (simp add: kernel_defs ex_defs ex_B1_def ex_Be1_def)
  have st: "solve_take_step ex_B ?l = ex_B2"
    by (simp add: solve_take_step_closed kernel_defs ex_defs ex_B1_def ex_Be1_def ex_B2_def)
  show ?thesis
    by (rule sqp_iteration_NextI[OF ex_B_eval1 ex_B_criteria1 ex_B_hessian1 ex_B_qp1 ls st])
qed

subsection \<open>The regularization\<close>

lemma solve_hessian_reg_nonpos:
  assumes "exact_hessian P" and "regularize P" and "solve_hessian P m = Some m2"
  shows "reg m2 = min 0 (- casadi_lb_eig (Bk m2)) \<and> reg m2 \<le> 0 \<and>
         nlp_hess_l P (take (nx P) (nlp_z m)) (nlp_p m) 1 (drop (nx P) (nlp_lam m)) = Some (Bk m2)"
  using assms by (auto simp: solve_hessian_def Let_def split: option.splits)

subsection \<open>The line searches of the limited-memory run\<close>

lemma ex_B_merit0:
  "solve_merit ex_B (ex_Bq0\<lparr>t_ls := 1, ls_iter := 0, ls_success := True\<rparr>) = (ex_Bs0, - 4, 1)"
  by (simp add: solve_merit_closed kernel_defs smod_nonneg ex_defs ex_Bs0_def Let_def)

lemma ex_B_ls0:
  "ls_loop ex_B (- 4) 1 ex_Bs0
     = Some (ex_Bs0\<lparr>ls_iter := 2, z_cand := [- (3 / 5)], t_ls := 4 / 5\<rparr>)"
proof -
  let ?c = "ex_Bs0\<lparr>ls_iter := 1, z_cand := [- 1], t_ls := 4 / 5\<rparr>"
  let ?l = "ex_Bs0\<lparr>ls_iter := 2, z_cand := [- (3 / 5)], t_ls := 4 / 5\<rparr>"
  have b1: "ls_body ex_B (- 4) 1 ex_Bs0 = LsContinue ?c"
    by (simp add: ls_body_def kernel_defs ex_defs ex_Bs0_def Let_def)
  have b2: "ls_body ex_B (- 4) 1 ?c = LsBreak ?l"
    by (simp add: ls_body_def kernel_defs ex_defs ex_Bs0_def Let_def)
  show ?thesis by (rule ls_loop_ContinueI[OF b1 ls_loop_BreakI[OF b2]])
qed

lemma ex_B_iterates1: "iterates ex_B (solve_reset ex_B ex_m) ex_B1"
  by (rule iterates_round[OF iterates_start ex_B_round0])

lemma ex_B_qp1_mem: "solve_qp_step ex_B (ex_Be1\<lparr>Bk := [[2]]\<rparr>) = ex_Bq1"
  by (simp add: ex_B_qp1 ex_Bq1_def)

section \<open>The claims\<close>

text \<open>
  C1. The claim asks for \<open>reg \<ge> 0\<close>, and \<open>reg = 0\<close> when the Gershgorin lower bound
  of the Hessian is positive. The code computes \<open>reg = fmin(0, - lb_eig(Hsp, Bk))\<close>:
  with the exact Hessian \<open>[[1]]\<close>, whose bound is 1, \<open>reg\<close> is \<open>- 1\<close>; with the Hessian
  \<open>[[- 3]]\<close>, whose bound is negative, \<open>reg\<close> is 0 and \<open>Bk\<close> is left as it is, so
  the guarded call of \<open>casadi_regularize\<close> is never reached.
\<close>

theorem regularization_never_positive:
  "casadi_lb_eig [[1]] = 1 \<and>
   solve_hessian (ex_P\<lparr>regularize := True, nlp_hess_l := \<lambda>x p lam_f lam_g. Some [[1]]\<rparr>) ex_e0
     = Some (ex_e0\<lparr>Bk := [[1]], reg := - 1\<rparr>) \<and>
   reg (ex_e0\<lparr>Bk := [[1]], reg := - 1\<rparr>) < 0 \<and>
   casadi_lb_eig [[- 3]] = - 3 \<and>
   solve_hessian (ex_P\<lparr>regularize := True, nlp_hess_l := \<lambda>x p lam_f lam_g. Some [[- 3]]\<rparr>) ex_e0
     = Some (ex_e0\<lparr>Bk := [[- 3]], reg := 0\<rparr>)"
  by (simp add: solve_hessian_def casadi_lb_eig_def gershgorin_row_def ex_defs Let_def)

text \<open>
  C2 (amended). With the limited-memory Hessian, \<open>Bk\<close> is the identity when the QP of
  iteration 0 is formed. At a later iteration \<open>k\<close> with \<open>k mod lbfgs_memory = 0\<close>,
  \<open>Bk\<close> is reset to the identity and the BFGS update with \<open>dx\<close>, \<open>gLag\<close> and
  \<open>gLag_old\<close> is then applied to it before the QP is formed; at the other iterations
  the update is applied to the \<open>Bk\<close> of the round before. So with \<open>lbfgs_memory = 1\<close>
  the \<open>Bk\<close> of the QP of every iteration \<open>k \<ge> 1\<close> is the update of the identity.
  The reset writes 1 on the diagonal and 0 elsewhere.
\<close>

theorem bfgs_reset_then_update:
  "(\<not> exact_hessian P \<and> iter_count m = 0 \<longrightarrow>
      (\<exists>m2. solve_hessian P m = Some m2 \<and> Bk m2 = casadi_bfgs_reset (Bk m) \<and>
            Bk (solve_qp_step P m2) = casadi_bfgs_reset (Bk m))) \<and>
   (\<not> exact_hessian P \<and> iter_count m \<noteq> 0 \<and> iter_count m smod lbfgs_memory P = 0 \<longrightarrow>
      (\<exists>m2. solve_hessian P m = Some m2 \<and>
            Bk m2 = casadi_bfgs (casadi_bfgs_reset (Bk m)) (dx m) (gLag m) (gLag_old m) \<and>
            Bk (solve_qp_step P m2) = Bk m2)) \<and>
   (\<not> exact_hessian P \<and> iter_count m \<noteq> 0 \<and> iter_count m smod lbfgs_memory P \<noteq> 0 \<longrightarrow>
      (\<exists>m2. solve_hessian P m = Some m2 \<and>
            Bk m2 = casadi_bfgs (Bk m) (dx m) (gLag m) (gLag_old m) \<and>
            Bk (solve_qp_step P m2) = Bk m2)) \<and>
   (\<not> exact_hessian P \<and> lbfgs_memory P = 1 \<and> iter_count m \<noteq> 0 \<longrightarrow>
      (\<exists>m2. solve_hessian P m = Some m2 \<and>
            Bk (solve_qp_step P m2)
              = casadi_bfgs (casadi_bfgs_reset (Bk m)) (dx m) (gLag m) (gLag_old m))) \<and>
   (i < length B \<and> j < length (B ! i) \<longrightarrow>
      casadi_bfgs_reset B ! i ! j = (if i = j then 1 else 0))"
  by (auto simp: solve_hessian_def Let_def solve_qp_step_keeps bfgs_reset_fill
      bfgs_reset_identity signed_modulo_int_def)

theorem bfgs_reset_then_update_witness:
  "(\<exists>m2. solve_hessian ex_B ex_e0 = Some m2 \<and> Bk m2 = [[1]] \<and>
         Bk (solve_qp_step ex_B m2) = [[1]]) \<and>
   (\<exists>m2. solve_hessian ex_B ex_Be1 = Some m2 \<and> Bk m2 = [[2]] \<and>
         Bk (solve_qp_step ex_B m2) = [[2]]) \<and>
   (\<exists>m2. solve_hessian (ex_B\<lparr>lbfgs_memory := 10\<rparr>) ex_Be1 = Some m2 \<and> Bk m2 = [[2]]) \<and>
   casadi_bfgs_reset [[2]] ! 0 ! 0 = 1"
proof -
  have b0: "casadi_bfgs_reset (Bk ex_e0) = [[1]]"
    by (simp add: casadi_bfgs_reset_def ex_defs)
  have b1: "casadi_bfgs (casadi_bfgs_reset (Bk ex_Be1)) (dx ex_Be1) (gLag ex_Be1) (gLag_old ex_Be1)
              = [[2]]"
    "casadi_bfgs (Bk ex_Be1) (dx ex_Be1) (gLag ex_Be1) (gLag_old ex_Be1) = [[2]]"
    by (simp_all add: casadi_bfgs_reset_def ex_bfgs1 ex_defs ex_B1_def ex_Be1_def)
  have h0: "\<not> exact_hessian ex_B \<and> iter_count ex_e0 = 0" by (simp add: ex_defs)
  have h1: "\<not> exact_hessian ex_B \<and> iter_count ex_Be1 \<noteq> 0 \<and>
            iter_count ex_Be1 smod lbfgs_memory ex_B = 0"
    by (simp add: ex_defs ex_B1_def ex_Be1_def signed_modulo_int_def)
  have h2: "\<not> exact_hessian (ex_B\<lparr>lbfgs_memory := 10\<rparr>) \<and> iter_count ex_Be1 \<noteq> 0 \<and>
            iter_count ex_Be1 smod lbfgs_memory (ex_B\<lparr>lbfgs_memory := 10\<rparr>) \<noteq> 0"
    by (simp add: ex_defs ex_B1_def ex_Be1_def signed_modulo_int_def)
  have h3: "(0 :: nat) < length [[2 :: real]] \<and> (0 :: nat) < length ([[2 :: real]] ! 0)" by simp
  from bfgs_reset_then_update[where P = ex_B and m = ex_e0 and B = "[]" and i = 0 and j = 0] h0
  have "\<exists>m2. solve_hessian ex_B ex_e0 = Some m2 \<and> Bk m2 = casadi_bfgs_reset (Bk ex_e0) \<and>
            Bk (solve_qp_step ex_B m2) = casadi_bfgs_reset (Bk ex_e0)" by blast
  then have 1: "\<exists>m2. solve_hessian ex_B ex_e0 = Some m2 \<and> Bk m2 = [[1]] \<and>
         Bk (solve_qp_step ex_B m2) = [[1]]" by (simp only: b0)
  from bfgs_reset_then_update[where P = ex_B and m = ex_Be1 and B = "[]" and i = 0 and j = 0] h1
  have "\<exists>m2. solve_hessian ex_B ex_Be1 = Some m2 \<and>
            Bk m2 = casadi_bfgs (casadi_bfgs_reset (Bk ex_Be1)) (dx ex_Be1) (gLag ex_Be1)
                      (gLag_old ex_Be1) \<and>
            Bk (solve_qp_step ex_B m2) = Bk m2" by blast
  then have 2: "\<exists>m2. solve_hessian ex_B ex_Be1 = Some m2 \<and> Bk m2 = [[2]] \<and>
         Bk (solve_qp_step ex_B m2) = [[2]]" by (auto simp only: b1)
  from bfgs_reset_then_update[where P = "ex_B\<lparr>lbfgs_memory := 10\<rparr>" and m = ex_Be1
      and B = "[]" and i = 0 and j = 0] h2
  have "\<exists>m2. solve_hessian (ex_B\<lparr>lbfgs_memory := 10\<rparr>) ex_Be1 = Some m2 \<and>
            Bk m2 = casadi_bfgs (Bk ex_Be1) (dx ex_Be1) (gLag ex_Be1) (gLag_old ex_Be1) \<and>
            Bk (solve_qp_step (ex_B\<lparr>lbfgs_memory := 10\<rparr>) m2) = Bk m2" by blast
  then have 3: "\<exists>m2. solve_hessian (ex_B\<lparr>lbfgs_memory := 10\<rparr>) ex_Be1 = Some m2 \<and>
         Bk m2 = [[2]]" by (auto simp only: b1)
  from bfgs_reset_then_update[where P = ex_B and m = ex_e0 and B = "[[2]]" and i = 0 and j = 0] h3
  have 4: "casadi_bfgs_reset [[2]] ! 0 ! 0 = 1" by simp
  from 1 2 3 4 show ?thesis by blast
qed

text \<open>
  C2 as stated fails: with \<open>lbfgs_memory = 1\<close> on the small problem, the QP of
  iteration 1 is formed with \<open>Bk = [[2]]\<close>, and iteration 2 starts with \<open>Bk = [[2]]\<close>,
  which is not the identity \<open>[[1]]\<close>.
\<close>

theorem bfgs_identity_counterexample:
  "\<not> exact_hessian ex_B \<and> lbfgs_memory ex_B = 1 \<and>
   sqp_iteration ex_B (solve_reset ex_B ex_m) = Some (Next ex_B1) \<and>
   solve_eval ex_B ex_B1 = Some ex_Be1 \<and> solve_criteria ex_B ex_Be1 = None \<and>
   solve_hessian ex_B ex_Be1 = Some (ex_Be1\<lparr>Bk := [[2]]\<rparr>) \<and>
   Bk (solve_qp_step ex_B (ex_Be1\<lparr>Bk := [[2]]\<rparr>)) = [[2]] \<and>
   sqp_iteration ex_B ex_B1 = Some (Next ex_B2) \<and> Bk ex_B2 = [[2]] \<and>
   casadi_bfgs_reset [[2]] = [[1]] \<and> [[2 :: real]] \<noteq> [[1]]"
proof -
  have "\<not> exact_hessian ex_B" "lbfgs_memory ex_B = 1" by (simp_all add: ex_defs)
  moreover have "Bk (solve_qp_step ex_B (ex_Be1\<lparr>Bk := [[2]]\<rparr>)) = [[2]]"
    by (simp add: solve_qp_step_keeps)
  moreover have "Bk ex_B2 = [[2]]" by (simp add: ex_B2_def)
  moreover have "casadi_bfgs_reset [[2]] = [[1]]" by (simp add: casadi_bfgs_reset_def)
  ultimately show ?thesis
    using ex_B_round0 ex_B_eval1 ex_B_criteria1 ex_B_hessian1 ex_B_round1 by simp
qed

text \<open>
  C3. In a round of the main loop that reaches the convergence criteria (\<open>nlp_jac_fg\<close>
  has succeeded and the callback has not asked to stop), the three tests are taken in
  order: with \<open>iter_count \<ge> min_iter\<close>, \<open>pr_inf < tol_pr\<close> and \<open>du_inf < tol_du\<close>
  the loop ends with status \<open>Solve_Succeeded\<close> and \<open>success = true\<close>; else with
  \<open>iter_count \<ge> max_iter\<close> it ends with \<open>Maximum_Iterations_Exceeded\<close> and the
  unified status \<open>SOLVER_RET_LIMITED\<close>; else with \<open>iter_count \<ge> 1\<close>,
  \<open>iter_count \<ge> min_iter\<close> and the norm of \<open>dx\<close> at most \<open>min_step_size\<close> it ends
  with \<open>Search_Direction_Becomes_Too_Small\<close>; else the round does not leave the loop
  by \<open>break\<close>. In each of the three cases \<open>solve\<close> returns 0. Hence a \<open>solve\<close>
  that returns 0 with status \<open>Solve_Succeeded\<close> has \<open>pr_inf < tol_pr\<close> and
  \<open>du_inf < tol_du\<close> at the returned memory.
\<close>

theorem convergence_tests_in_order:
  "(solve_eval P m = Some m1 \<and> \<not> callback P m1 \<longrightarrow>
      (if min_iter P \<le> iter_count m1 \<and> pr_inf P m1 < tol_pr P \<and> du_inf P m1 < tol_du P
       then solve_loop P m = Some (0, m1\<lparr>return_status := ''Solve_Succeeded'', success := True\<rparr>)
       else if max_iter P \<le> iter_count m1
       then solve_loop P m = Some (0, m1\<lparr>return_status := ''Maximum_Iterations_Exceeded'',
                                          unified_return_status := SOLVER_RET_LIMITED\<rparr>)
       else if 1 \<le> iter_count m1 \<and> min_iter P \<le> iter_count m1
               \<and> dx_norminf P m1 \<le> min_step_size P
       then solve_loop P m = Some (0, m1\<lparr>return_status := ''Search_Direction_Becomes_Too_Small''\<rparr>)
       else (\<forall>mb. sqp_iteration P m \<noteq> Some (Break mb))))
   \<and> (solve P m0 = Some (0, mf) \<and> return_status mf = ''Solve_Succeeded'' \<longrightarrow>
        pr_inf P mf < tol_pr P \<and> du_inf P mf < tol_du P \<and> success mf)"
proof (rule conjI; rule impI)
  assume a: "solve_eval P m = Some m1 \<and> \<not> callback P m1"
  then have it: "sqp_iteration P m =
      (case solve_criteria P m1 of Some mb \<Rightarrow> Some (Break mb)
       | None \<Rightarrow> (case solve_hessian P m1 of None \<Rightarrow> Some (Return1 m1)
           | Some m2 \<Rightarrow> (case solve_linesearch P (solve_qp_step P m2) of None \<Rightarrow> None
                | Some m3 \<Rightarrow> Some (Next (solve_take_step P m3)))))"
    by (simp add: sqp_iteration_def)
  from a show "if min_iter P \<le> iter_count m1 \<and> pr_inf P m1 < tol_pr P \<and> du_inf P m1 < tol_du P
       then solve_loop P m = Some (0, m1\<lparr>return_status := ''Solve_Succeeded'', success := True\<rparr>)
       else if max_iter P \<le> iter_count m1
       then solve_loop P m = Some (0, m1\<lparr>return_status := ''Maximum_Iterations_Exceeded'',
                                          unified_return_status := SOLVER_RET_LIMITED\<rparr>)
       else if 1 \<le> iter_count m1 \<and> min_iter P \<le> iter_count m1
               \<and> dx_norminf P m1 \<le> min_step_size P
       then solve_loop P m = Some (0, m1\<lparr>return_status := ''Search_Direction_Becomes_Too_Small''\<rparr>)
       else (\<forall>mb. sqp_iteration P m \<noteq> Some (Break mb))"
    by (auto simp: it solve_criteria_def intro!: solve_loop_Break split: option.splits)
next
  assume b: "solve P m0 = Some (0, mf) \<and> return_status mf = ''Solve_Succeeded''"
  then have "solve_loop P (solve_reset P m0) = Some (0, mf)" by (simp add: solve_def)
  from solve_loop_result[OF this] obtain m' where "sqp_iteration P m' = Some (Break mf)" by auto
  then obtain m1 where c: "solve_criteria P m1 = Some mf" by (auto simp: sqp_iteration_Break)
  from solve_criteria_succeeded[OF c] solve_criteria_frame[OF c] b
  show "pr_inf P mf < tol_pr P \<and> du_inf P mf < tol_du P \<and> success mf" by simp
qed

theorem convergence_tests_in_order_witness:
  "solve_eval ex_P (solve_reset ex_P (ex_m\<lparr>nlp_z := [0]\<rparr>))
     = Some (solve_reset ex_P (ex_m\<lparr>nlp_z := [0]\<rparr>)) \<and>
   \<not> callback ex_P (solve_reset ex_P (ex_m\<lparr>nlp_z := [0]\<rparr>)) \<and>
   solve ex_P (ex_m\<lparr>nlp_z := [0]\<rparr>)
     = Some (0, solve_reset ex_P (ex_m\<lparr>nlp_z := [0], return_status := ''Solve_Succeeded'',
                                        success := True\<rparr>)) \<and>
   pr_inf ex_P (solve_reset ex_P (ex_m\<lparr>nlp_z := [0], return_status := ''Solve_Succeeded'',
                                        success := True\<rparr>)) < tol_pr ex_P \<and>
   solve_loop (ex_P\<lparr>max_iter := 0\<rparr>) (solve_reset ex_P ex_m)
     = Some (0, ex_e0\<lparr>return_status := ''Maximum_Iterations_Exceeded'',
                      unified_return_status := SOLVER_RET_LIMITED\<rparr>) \<and>
   solve_loop ex_P (ex_e0\<lparr>iter_count := 1\<rparr>)
     = Some (0, ex_e0\<lparr>iter_count := 1,
                      return_status := ''Search_Direction_Becomes_Too_Small''\<rparr>)"
proof -
  let ?m = "solve_reset ex_P (ex_m\<lparr>nlp_z := [0]\<rparr>)"
  let ?mf = "solve_reset ex_P (ex_m\<lparr>nlp_z := [0], return_status := ''Solve_Succeeded'',
                                        success := True\<rparr>)"
  have ev: "solve_eval ex_P ?m = Some ?m"
    by (simp add: solve_eval_def solve_reset_def kernel_defs ex_P_def ex_m_def Let_def)
  have cb: "\<not> callback ex_P ?m" by (simp add: ex_P_def)
  have conv: "min_iter ex_P \<le> iter_count ?m \<and> pr_inf ex_P ?m < tol_pr ex_P
               \<and> du_inf ex_P ?m < tol_du ex_P"
    by (simp add: solve_reset_def pr_inf_def du_inf_def kernel_defs ex_P_def ex_m_def Let_def)
  have upd: "?m\<lparr>return_status := ''Solve_Succeeded'', success := True\<rparr> = ?mf"
    by (simp add: solve_reset_def Let_def)
  have run: "solve ex_P (ex_m\<lparr>nlp_z := [0]\<rparr>) = Some (0, ?mf)"
    using convergence_tests_in_order[of ex_P ?m ?m] ev cb conv upd by (simp add: solve_def)
  have st: "return_status ?mf = ''Solve_Succeeded''" by (simp add: solve_reset_def Let_def)
  from convergence_tests_in_order[of ex_P _ _ "ex_m\<lparr>nlp_z := [0]\<rparr>" ?mf] run st
  have fin: "pr_inf ex_P ?mf < tol_pr ex_P" by simp
  let ?PM = "ex_P\<lparr>max_iter := 0\<rparr>"
  have evM: "solve_eval ?PM (solve_reset ex_P ex_m) = Some ex_e0 \<and> \<not> callback ?PM ex_e0"
    by (simp add: solve_eval_closed solve_reset_def kernel_defs ex_defs Let_def)
  have cM: "\<not> (min_iter ?PM \<le> iter_count ex_e0 \<and> pr_inf ?PM ex_e0 < tol_pr ?PM \<and>
               du_inf ?PM ex_e0 < tol_du ?PM)" "max_iter ?PM \<le> iter_count ex_e0"
    by (simp_all add: pr_inf_def du_inf_def kernel_defs ex_defs)
  from convergence_tests_in_order[of ?PM "solve_reset ex_P ex_m" ex_e0] evM cM
  have lim: "solve_loop ?PM (solve_reset ex_P ex_m)
     = Some (0, ex_e0\<lparr>return_status := ''Maximum_Iterations_Exceeded'',
                      unified_return_status := SOLVER_RET_LIMITED\<rparr>)" by simp
  let ?s = "ex_e0\<lparr>iter_count := 1\<rparr>"
  have evS: "solve_eval ex_P ?s = Some ?s \<and> \<not> callback ex_P ?s"
    by (simp add: solve_eval_closed kernel_defs ex_defs Let_def)
  have cS: "\<not> (min_iter ex_P \<le> iter_count ?s \<and> pr_inf ex_P ?s < tol_pr ex_P \<and>
               du_inf ex_P ?s < tol_du ex_P)" "\<not> max_iter ex_P \<le> iter_count ?s"
    "1 \<le> iter_count ?s \<and> min_iter ex_P \<le> iter_count ?s \<and>
     dx_norminf ex_P ?s \<le> min_step_size ex_P"
    by (simp_all add: pr_inf_def du_inf_def dx_norminf_def kernel_defs ex_defs)
  from convergence_tests_in_order[of ex_P ?s ?s] evS cS
  have stall: "solve_loop ex_P ?s
     = Some (0, ?s\<lparr>return_status := ''Search_Direction_Becomes_Too_Small''\<rparr>)" by simp
  from ev cb run fin lim stall show ?thesis by simp
qed



text \<open>
  C5. In every round of a run of \<open>solve\<close> that reaches the line search with
  \<open>max_iter_ls > 0\<close>, for a merit memory of \<open>merit_memsize > 0\<close> entries: the cursor
  \<open>merit_ind\<close> is inside the memory and \<open>iter_count\<close>, already incremented in this
  round, is at least 1; the merit value \<open>f + sigma * infeasibility\<close> of the iterate (with
  the updated \<open>sigma\<close>) is written at \<open>merit_mem[merit_ind]\<close> and the cursor becomes
  \<open>(merit_ind + 1) mod merit_memsize\<close>; the memory and the cursor are then left alone
  until the next round starts. The reference \<open>meritmax\<close> is \<open>vfmax\<close> over
  \<open>merit_mem + 1\<close> of length \<open>min(merit_memsize, iter_count) - 1\<close> seeded with
  \<open>merit_mem[0]\<close>, that is, the maximum of the first \<open>min(merit_memsize, iter_count)\<close>
  entries of the memory, and it is the value the line-search loop of the round compares
  the merit of every evaluated candidate with.
\<close>

theorem merit_memory:
  "0 < max_iter_ls P \<and> 0 < merit_memsize P \<and> length (merit_mem m0) = nat (merit_memsize P) \<and>
   iterates P (solve_reset P m0) m \<and>
   solve_eval P m = Some m1 \<and> solve_criteria P m1 = None \<and> solve_hessian P m1 = Some m2 \<and>
   mq = solve_qp_step P m2 \<and>
   sg = max (sigma mq) (1.01 * casadi_norm_inf (nx P + ng P) (dlam mq)) \<and>
   viol = casadi_max_viol (nx P + ng P) (nlp_z mq) (nlp_lbz mq) (nlp_ubz mq) \<and>
   mem = (merit_mem mq)[nat (merit_ind mq) := nlp_f mq + sg * viol] \<and>
   ind = (merit_ind mq + 1) mod merit_memsize P \<and>
   L1dir = casadi_dot (nx P) (dx mq) (gf mq) - sg * viol \<and>
   meritmax = casadi_vfmax (drop 1 mem) (min (merit_memsize P) (iter_count mq) - 1) (mem ! 0) \<and>
   ms = mq\<lparr>t_ls := 1, ls_iter := 0, ls_success := True, sigma := sg, merit_mem := mem,
          merit_ind := ind\<rparr> \<longrightarrow>
     merit_mem mq = merit_mem m \<and> merit_ind mq = merit_ind m \<and>
     iter_count mq = iter_count m + 1 \<and> 1 \<le> iter_count mq \<and>
     0 \<le> merit_ind mq \<and> merit_ind mq < merit_memsize P \<and>
     length (merit_mem mq) = nat (merit_memsize P) \<and>
     0 \<le> ind \<and> ind < merit_memsize P \<and> length mem = nat (merit_memsize P) \<and>
     meritmax = Max (set (take (nat (min (merit_memsize P) (iter_count mq))) mem)) \<and>
     solve_merit P (mq\<lparr>t_ls := 1, ls_iter := 0, ls_success := True\<rparr>) = (ms, L1dir, meritmax) \<and>
     solve_linesearch P mq =
       map_option (\<lambda>ml. ml\<lparr>nlp_lam := casadi_axpy (nx P + ng P) (t_ls ml) (dlam ml)
                                       (casadi_scal (nx P + ng P) (1 - t_ls ml) (nlp_lam ml)),
                           dx := casadi_scal (nx P) (t_ls ml) (dx ml)\<rparr>)
         (ls_loop P L1dir meritmax ms) \<and>
     sqp_iteration P m = map_option (\<lambda>m3. Next (solve_take_step P m3)) (solve_linesearch P mq) \<and>
     (\<forall>m3. solve_linesearch P mq = Some m3 \<longrightarrow> merit_mem m3 = mem \<and> merit_ind m3 = ind) \<and>
     (\<forall>m'. sqp_iteration P m = Some (Next m') \<longrightarrow> merit_mem m' = mem \<and> merit_ind m' = ind) \<and>
     (\<forall>ml fk g. nlp_fg P (ls_candidate P ml) (nlp_p ml) = Some (fk, g) \<longrightarrow>
        ls_body P L1dir meritmax ml =
          (let mc = ml\<lparr>ls_iter := ls_iter ml + 1, z_cand := ls_candidate P ml @ g\<rparr> in
           if fk + sigma ml * casadi_max_viol (nx P + ng P) (ls_candidate P ml @ g)
                                (nlp_lbz ml) (nlp_ubz ml)
                \<le> meritmax + t_ls ml * c1 P * L1dir then LsBreak mc
           else if ls_iter ml + 1 = max_iter_ls P then LsBreak (mc\<lparr>ls_success := False\<rparr>)
           else LsContinue (mc\<lparr>t_ls := beta P * t_ls ml\<rparr>)))"
proof
  assume a: "0 < max_iter_ls P \<and> 0 < merit_memsize P \<and> length (merit_mem m0) = nat (merit_memsize P) \<and>
   iterates P (solve_reset P m0) m \<and>
   solve_eval P m = Some m1 \<and> solve_criteria P m1 = None \<and> solve_hessian P m1 = Some m2 \<and>
   mq = solve_qp_step P m2 \<and>
   sg = max (sigma mq) (1.01 * casadi_norm_inf (nx P + ng P) (dlam mq)) \<and>
   viol = casadi_max_viol (nx P + ng P) (nlp_z mq) (nlp_lbz mq) (nlp_ubz mq) \<and>
   mem = (merit_mem mq)[nat (merit_ind mq) := nlp_f mq + sg * viol] \<and>
   ind = (merit_ind mq + 1) mod merit_memsize P \<and>
   L1dir = casadi_dot (nx P) (dx mq) (gf mq) - sg * viol \<and>
   meritmax = casadi_vfmax (drop 1 mem) (min (merit_memsize P) (iter_count mq) - 1) (mem ! 0) \<and>
   ms = mq\<lparr>t_ls := 1, ls_iter := 0, ls_success := True, sigma := sg, merit_mem := mem,
          merit_ind := ind\<rparr>"
  let ?e = "mq\<lparr>t_ls := 1, ls_iter := 0, ls_success := True\<rparr>"
  let ?fin = "\<lambda>ml. ml\<lparr>nlp_lam := casadi_axpy (nx P + ng P) (t_ls ml) (dlam ml)
                                       (casadi_scal (nx P + ng P) (1 - t_ls ml) (nlp_lam ml)),
                           dx := casadi_scal (nx P) (t_ls ml) (dx ml)\<rparr>"
  from a have on: "0 < max_iter_ls P" and sz: "0 < merit_memsize P"
    and len0: "length (merit_mem m0) = nat (merit_memsize P)"
    and run: "iterates P (solve_reset P m0) m"
    and ev: "solve_eval P m = Some m1" and cr: "solve_criteria P m1 = None"
    and he: "solve_hessian P m1 = Some m2" and mq: "mq = solve_qp_step P m2"
    and sg: "sg = max (sigma mq) (1.01 * casadi_norm_inf (nx P + ng P) (dlam mq))"
    and viol: "viol = casadi_max_viol (nx P + ng P) (nlp_z mq) (nlp_lbz mq) (nlp_ubz mq)"
    and mem: "mem = (merit_mem mq)[nat (merit_ind mq) := nlp_f mq + sg * viol]"
    and ind: "ind = (merit_ind mq + 1) mod merit_memsize P"
    and L: "L1dir = casadi_dot (nx P) (dx mq) (gf mq) - sg * viol"
    and M: "meritmax = casadi_vfmax (drop 1 mem) (min (merit_memsize P) (iter_count mq) - 1)
                         (mem ! 0)"
    and ms: "ms = mq\<lparr>t_ls := 1, ls_iter := 0, ls_success := True, sigma := sg,
                    merit_mem := mem, merit_ind := ind\<rparr>"
    by blast+
  note inv = iterates_merit_invariant[OF sz len0 run]
  have k1: "merit_mem mq = merit_mem m" "merit_ind mq = merit_ind m"
    "iter_count mq = iter_count m + 1"
    unfolding mq
    by (simp_all add: solve_qp_step_keeps solve_hessian_keeps[OF he] solve_eval_keeps[OF ev])
  from inv k1 have k2: "1 \<le> iter_count mq" "0 \<le> merit_ind mq" "merit_ind mq < merit_memsize P"
    "length (merit_mem mq) = nat (merit_memsize P)" by simp_all
  from sz have k3: "0 \<le> ind" "ind < merit_memsize P" by (simp_all add: ind)
  from k2 have k4: "length mem = nat (merit_memsize P)" by (simp add: mem)
  have p: "0 \<le> merit_ind ?e" "merit_ind ?e < merit_memsize P"
    "length (merit_mem ?e) = nat (merit_memsize P)" "1 \<le> iter_count ?e"
    "sg = max (sigma ?e) (1.01 * casadi_norm_inf (nx P + ng P) (dlam ?e))"
    "viol = casadi_max_viol (nx P + ng P) (nlp_z ?e) (nlp_lbz ?e) (nlp_ubz ?e)"
    "mem = (merit_mem ?e)[nat (merit_ind ?e) := nlp_f ?e + sg * viol]"
    using k2 sg viol mem by simp_all
  note stage = solve_merit_stage[OF sz p]
  from stage(2) have mx: "meritmax = Max (set (take (nat (min (merit_memsize P) (iter_count mq))) mem))"
    by (simp add: M)
  from stage(1) have sm: "solve_merit P ?e = (ms, L1dir, meritmax)"
    by (simp add: ms L M ind)
  have ls: "solve_linesearch P mq = map_option ?fin (ls_loop P L1dir meritmax ms)"
    by (rule solve_linesearch_loop[OF on sm])
  have it: "sqp_iteration P m
      = map_option (\<lambda>m3. Next (solve_take_step P m3)) (solve_linesearch P mq)"
    unfolding mq by (rule sqp_iteration_linesearch[OF ev cr he])
  have msf: "merit_mem ms = mem" "merit_ind ms = ind" by (simp_all add: ms)
  have r3: "merit_mem m3 = mem \<and> merit_ind m3 = ind" if "solve_linesearch P mq = Some m3" for m3
  proof -
    from that ls obtain ml where ll: "ls_loop P L1dir meritmax ms = Some ml" and m3: "m3 = ?fin ml"
      by auto
    from ls_frame_fields(8,9)[OF ls_loop_frame[OF ll]] msf show ?thesis by (simp add: m3)
  qed
  have r4: "merit_mem m' = mem \<and> merit_ind m' = ind" if "sqp_iteration P m = Some (Next m')" for m'
  proof -
    from that it obtain m3 where l3: "solve_linesearch P mq = Some m3"
      and m': "m' = solve_take_step P m3" by auto
    from r3[OF l3] show ?thesis by (simp add: m' solve_take_step_merit)
  qed
  have r5: "ls_body P L1dir meritmax ml =
          (let mc = ml\<lparr>ls_iter := ls_iter ml + 1, z_cand := ls_candidate P ml @ g\<rparr> in
           if fk + sigma ml * casadi_max_viol (nx P + ng P) (ls_candidate P ml @ g)
                                (nlp_lbz ml) (nlp_ubz ml)
                \<le> meritmax + t_ls ml * c1 P * L1dir then LsBreak mc
           else if ls_iter ml + 1 = max_iter_ls P then LsBreak (mc\<lparr>ls_success := False\<rparr>)
           else LsContinue (mc\<lparr>t_ls := beta P * t_ls ml\<rparr>))"
    if "nlp_fg P (ls_candidate P ml) (nlp_p ml) = Some (fk, g)" for ml fk g
    by (rule ls_body_evaluated[OF that])
  from k1 k2 k3 k4 mx sm ls it r3 r4 r5
  show "merit_mem mq = merit_mem m \<and> merit_ind mq = merit_ind m \<and>
     iter_count mq = iter_count m + 1 \<and> 1 \<le> iter_count mq \<and>
     0 \<le> merit_ind mq \<and> merit_ind mq < merit_memsize P \<and>
     length (merit_mem mq) = nat (merit_memsize P) \<and>
     0 \<le> ind \<and> ind < merit_memsize P \<and> length mem = nat (merit_memsize P) \<and>
     meritmax = Max (set (take (nat (min (merit_memsize P) (iter_count mq))) mem)) \<and>
     solve_merit P (mq\<lparr>t_ls := 1, ls_iter := 0, ls_success := True\<rparr>) = (ms, L1dir, meritmax) \<and>
     solve_linesearch P mq =
       map_option (\<lambda>ml. ml\<lparr>nlp_lam := casadi_axpy (nx P + ng P) (t_ls ml) (dlam ml)
                                       (casadi_scal (nx P + ng P) (1 - t_ls ml) (nlp_lam ml)),
                           dx := casadi_scal (nx P) (t_ls ml) (dx ml)\<rparr>)
         (ls_loop P L1dir meritmax ms) \<and>
     sqp_iteration P m = map_option (\<lambda>m3. Next (solve_take_step P m3)) (solve_linesearch P mq) \<and>
     (\<forall>m3. solve_linesearch P mq = Some m3 \<longrightarrow> merit_mem m3 = mem \<and> merit_ind m3 = ind) \<and>
     (\<forall>m'. sqp_iteration P m = Some (Next m') \<longrightarrow> merit_mem m' = mem \<and> merit_ind m' = ind) \<and>
     (\<forall>ml fk g. nlp_fg P (ls_candidate P ml) (nlp_p ml) = Some (fk, g) \<longrightarrow>
        ls_body P L1dir meritmax ml =
          (let mc = ml\<lparr>ls_iter := ls_iter ml + 1, z_cand := ls_candidate P ml @ g\<rparr> in
           if fk + sigma ml * casadi_max_viol (nx P + ng P) (ls_candidate P ml @ g)
                                (nlp_lbz ml) (nlp_ubz ml)
                \<le> meritmax + t_ls ml * c1 P * L1dir then LsBreak mc
           else if ls_iter ml + 1 = max_iter_ls P then LsBreak (mc\<lparr>ls_success := False\<rparr>)
           else LsContinue (mc\<lparr>t_ls := beta P * t_ls ml\<rparr>)))"
    by blast
qed

theorem merit_memory_witness:
  "iterates ex_B (solve_reset ex_B ex_m) ex_B1 \<and>
   merit_mem ex_B1 = [1, 0, 0, 0] \<and> merit_ind ex_B1 = 1 \<and> iter_count ex_Bq1 = 2 \<and>
   solve_merit ex_B (ex_Bq1\<lparr>t_ls := 1, ls_iter := 0, ls_success := True\<rparr>)
     = (ex_Bs1, - (18 / 25), 1) \<and>
   merit_mem ex_Bs1 = [1, 9 / 25, 0, 0] \<and> merit_ind ex_Bs1 = 2 \<and>
   (1 :: real) = Max (set (take (nat (min (merit_memsize ex_B) 2)) [1, 9 / 25, 0, 0])) \<and>
   ls_body ex_B (- (18 / 25)) 1 ex_Bs1 = LsBreak (ex_Bs1\<lparr>ls_iter := 1, z_cand := [0]\<rparr>) \<and>
   sqp_iteration ex_B ex_B1 = Some (Next ex_B2) \<and>
   merit_mem ex_B2 = [1, 9 / 25, 0, 0] \<and> merit_ind ex_B2 = 2"
proof -
  note d = ex_defs ex_B1_def ex_Be1_def ex_Bq1_def ex_Bs1_def
  have pre: "0 < max_iter_ls ex_B \<and> 0 < merit_memsize ex_B \<and>
     length (merit_mem ex_m) = nat (merit_memsize ex_B) \<and>
     iterates ex_B (solve_reset ex_B ex_m) ex_B1 \<and>
     solve_eval ex_B ex_B1 = Some ex_Be1 \<and> solve_criteria ex_B ex_Be1 = None \<and>
     solve_hessian ex_B ex_Be1 = Some (ex_Be1\<lparr>Bk := [[2]]\<rparr>) \<and>
     ex_Bq1 = solve_qp_step ex_B (ex_Be1\<lparr>Bk := [[2]]\<rparr>) \<and>
     (0 :: real) = max (sigma ex_Bq1) (1.01 * casadi_norm_inf (nx ex_B + ng ex_B) (dlam ex_Bq1)) \<and>
     (0 :: real) = casadi_max_viol (nx ex_B + ng ex_B) (nlp_z ex_Bq1) (nlp_lbz ex_Bq1)
                     (nlp_ubz ex_Bq1) \<and>
     [1, 9 / 25, 0, 0] = (merit_mem ex_Bq1)[nat (merit_ind ex_Bq1) := nlp_f ex_Bq1 + 0 * 0] \<and>
     (2 :: int) = (merit_ind ex_Bq1 + 1) mod merit_memsize ex_B \<and>
     - (18 / 25) = casadi_dot (nx ex_B) (dx ex_Bq1) (gf ex_Bq1) - 0 * 0 \<and>
     (1 :: real) = casadi_vfmax (drop 1 [1, 9 / 25, 0, 0])
                     (min (merit_memsize ex_B) (iter_count ex_Bq1) - 1) ([1, 9 / 25, 0, 0] ! 0) \<and>
     ex_Bs1 = ex_Bq1\<lparr>t_ls := 1, ls_iter := 0, ls_success := True, sigma := 0,
                    merit_mem := [1, 9 / 25, 0, 0], merit_ind := 2\<rparr>"
  proof -
    have 1: "0 < max_iter_ls ex_B \<and> 0 < merit_memsize ex_B \<and>
       length (merit_mem ex_m) = nat (merit_memsize ex_B)" by (simp add: ex_defs)
    have 2: "(0 :: real) = max (sigma ex_Bq1)
                (1.01 * casadi_norm_inf (nx ex_B + ng ex_B) (dlam ex_Bq1))"
      "(0 :: real) = casadi_max_viol (nx ex_B + ng ex_B) (nlp_z ex_Bq1) (nlp_lbz ex_Bq1)
                     (nlp_ubz ex_Bq1)"
      by (simp_all add: kernel_defs d)
    have 3: "[1, 9 / 25, 0, 0] = (merit_mem ex_Bq1)[nat (merit_ind ex_Bq1) := nlp_f ex_Bq1 + 0 * 0]"
      "(2 :: int) = (merit_ind ex_Bq1 + 1) mod merit_memsize ex_B"
      "- (18 / 25) = casadi_dot (nx ex_B) (dx ex_Bq1) (gf ex_Bq1) - 0 * 0"
      by (simp_all add: kernel_defs d)
    have 4: "(1 :: real) = casadi_vfmax (drop 1 [1, 9 / 25, 0, 0])
                     (min (merit_memsize ex_B) (iter_count ex_Bq1) - 1) ([1, 9 / 25, 0, 0] ! 0)"
      by (simp add: kernel_defs d)
    have 5: "ex_Bs1 = ex_Bq1\<lparr>t_ls := 1, ls_iter := 0, ls_success := True, sigma := 0,
                    merit_mem := [1, 9 / 25, 0, 0], merit_ind := 2\<rparr>"
      by (simp add: d)
    from 1 ex_B_iterates1 ex_B_eval1 ex_B_criteria1 ex_B_hessian1 ex_B_qp1_mem[symmetric] 2 3 4 5
    show ?thesis by (intro conjI) simp_all
  qed
  note c = merit_memory[where P = ex_B and ?m0.0 = ex_m and m = ex_B1 and ?m1.0 = ex_Be1
      and ?m2.0 = "ex_Be1\<lparr>Bk := [[2]]\<rparr>" and mq = ex_Bq1 and sg = 0 and viol = 0
      and mem = "[1, 9 / 25, 0, 0]" and ind = 2 and ?L1dir.0 = "- (18 / 25)" and meritmax = 1
      and ms = ex_Bs1, THEN mp, OF pre]
  from c have sm: "solve_merit ex_B (ex_Bq1\<lparr>t_ls := 1, ls_iter := 0, ls_success := True\<rparr>)
     = (ex_Bs1, - (18 / 25), 1)" by blast
  from c have "(1 :: real) = Max (set (take (nat (min (merit_memsize ex_B) (iter_count ex_Bq1)))
      [1, 9 / 25, 0, 0]))" by blast
  then have mx: "(1 :: real) = Max (set (take (nat (min (merit_memsize ex_B) 2)) [1, 9 / 25, 0, 0]))"
    by (simp add: ex_Bq1_def)
  from c ex_B_round1 have nx: "merit_mem ex_B2 = [1, 9 / 25, 0, 0] \<and> merit_ind ex_B2 = 2"
    by blast
  have fg: "nlp_fg ex_B (ls_candidate ex_B ex_Bs1) (nlp_p ex_Bs1) = Some (0, [])"
    by (simp add: ls_candidate_def kernel_defs d)
  from c fg have "ls_body ex_B (- (18 / 25)) 1 ex_Bs1 =
          (let mc = ex_Bs1\<lparr>ls_iter := ls_iter ex_Bs1 + 1, z_cand := ls_candidate ex_B ex_Bs1 @ []\<rparr> in
           if 0 + sigma ex_Bs1 * casadi_max_viol (nx ex_B + ng ex_B) (ls_candidate ex_B ex_Bs1 @ [])
                                (nlp_lbz ex_Bs1) (nlp_ubz ex_Bs1)
                \<le> 1 + t_ls ex_Bs1 * c1 ex_B * - (18 / 25) then LsBreak mc
           else if ls_iter ex_Bs1 + 1 = max_iter_ls ex_B then LsBreak (mc\<lparr>ls_success := False\<rparr>)
           else LsContinue (mc\<lparr>t_ls := beta ex_B * t_ls ex_Bs1\<rparr>))"
    by blast
  then have lb: "ls_body ex_B (- (18 / 25)) 1 ex_Bs1
      = LsBreak (ex_Bs1\<lparr>ls_iter := 1, z_cand := [0]\<rparr>)"
    by (simp add: ls_candidate_def kernel_defs d Let_def)
  have f: "merit_mem ex_B1 = [1, 0, 0, 0] \<and> merit_ind ex_B1 = 1 \<and> iter_count ex_Bq1 = 2 \<and>
     merit_mem ex_Bs1 = [1, 9 / 25, 0, 0] \<and> merit_ind ex_Bs1 = 2"
    by (simp add: d)
  from ex_B_iterates1 f sm mx lb ex_B_round1 nx show ?thesis by blast
qed

text \<open>
  C6. \<open>sigma\<close> is 0 at the entry of \<open>solve\<close>. A round of the main loop that goes on
  to the next leaves \<open>sigma\<close> at \<open>max(sigma, 1.01 * norm_inf(nx + ng, dlam))\<close> when the
  line search is on and untouched otherwise, so \<open>sigma\<close> does not decrease; over the
  rounds of one \<open>solve\<close> the values of \<open>sigma\<close> are non-negative and non-decreasing,
  and the returned memory holds the \<open>sigma\<close> of the last round.
\<close>

theorem sigma_monotone:
  "sigma (solve_reset P m0) = 0 \<and>
   (sqp_iteration P m = Some (Next m') \<longrightarrow>
      sigma m' = (if 0 < max_iter_ls P
                  then max (sigma m) (1.01 * casadi_norm_inf (nx P + ng P) (dlam m'))
                  else sigma m) \<and>
      sigma m \<le> sigma m') \<and>
   (iterates P (solve_reset P m0) m \<and> iterates P m m' \<longrightarrow> 0 \<le> sigma m \<and> sigma m \<le> sigma m') \<and>
   (solve P m0 = Some (rc, mf) \<longrightarrow>
      (\<exists>ml. iterates P (solve_reset P m0) ml \<and> sigma mf = sigma ml))"
proof -
  have 0: "sigma (solve_reset P m0) = 0" by (simp add: solve_reset_def Let_def)
  have 1: "sqp_iteration P m = Some (Next m') \<longrightarrow>
      sigma m' = (if 0 < max_iter_ls P
                  then max (sigma m) (1.01 * casadi_norm_inf (nx P + ng P) (dlam m'))
                  else sigma m) \<and>
      sigma m \<le> sigma m'"
  proof
    assume a: "sqp_iteration P m = Some (Next m')"
    from sqp_iteration_Next_keeps(5)[OF a] show "sigma m' = (if 0 < max_iter_ls P
                  then max (sigma m) (1.01 * casadi_norm_inf (nx P + ng P) (dlam m'))
                  else sigma m) \<and>
      sigma m \<le> sigma m'" by (simp split: if_splits)
  qed
  have 2: "iterates P (solve_reset P m0) m \<and> iterates P m m' \<longrightarrow>
      0 \<le> sigma m \<and> sigma m \<le> sigma m'"
    using iterates_sigma[of P "solve_reset P m0" m] iterates_sigma[of P m m'] 0 by auto
  have 3: "solve P m0 = Some (rc, mf) \<longrightarrow>
      (\<exists>ml. iterates P (solve_reset P m0) ml \<and> sigma mf = sigma ml)"
  proof
    assume "solve P m0 = Some (rc, mf)"
    then have "solve_loop P (solve_reset P m0) = Some (rc, mf)" by (simp add: solve_def)
    from solve_loop_result[OF this] obtain ml where it: "iterates P (solve_reset P m0) ml"
      and r: "sqp_iteration P ml = Some (Break mf) \<or> sqp_iteration P ml = Some (Return1 mf)"
      by auto
    from r have "sigma mf = sigma ml"
      by (auto simp: sqp_iteration_Break sqp_iteration_Return1 solve_criteria_keeps
          solve_eval_keeps)
    with it show "\<exists>ml. iterates P (solve_reset P m0) ml \<and> sigma mf = sigma ml" by blast
  qed
  from 0 1 2 3 show ?thesis by blast
qed

theorem sigma_monotone_witness:
  "sqp_iteration ex_P (solve_reset ex_P ex_m) = Some (Next ex_m1) \<and>
   sigma ex_m1 = max (sigma (solve_reset ex_P ex_m))
                   (1.01 * casadi_norm_inf (nx ex_P + ng ex_P) (dlam ex_m1)) \<and>
   iterates ex_P (solve_reset ex_P ex_m) ex_m1 \<and>
   0 \<le> sigma (solve_reset ex_P ex_m) \<and> sigma (solve_reset ex_P ex_m) \<le> sigma ex_m1 \<and>
   solve ex_P ex_m = Some (0, ex_mf) \<and>
   (\<exists>ml. iterates ex_P (solve_reset ex_P ex_m) ml \<and> sigma ex_mf = sigma ml)"
proof -
  have ls: "0 < max_iter_ls ex_P" by (simp add: ex_P_def)
  have it: "iterates ex_P (solve_reset ex_P ex_m) (solve_reset ex_P ex_m) \<and>
            iterates ex_P (solve_reset ex_P ex_m) ex_m1"
    using ex_iterates by (simp add: iterates_start)
  from sigma_monotone[of ex_P ex_m "solve_reset ex_P ex_m" ex_m1] ex_round0 ls
  have 1: "sigma ex_m1 = max (sigma (solve_reset ex_P ex_m))
                   (1.01 * casadi_norm_inf (nx ex_P + ng ex_P) (dlam ex_m1))" by simp
  from sigma_monotone[of ex_P ex_m "solve_reset ex_P ex_m" ex_m1] it
  have 2: "0 \<le> sigma (solve_reset ex_P ex_m) \<and> sigma (solve_reset ex_P ex_m) \<le> sigma ex_m1"
    by blast
  from sigma_monotone[of ex_P ex_m _ _ 0 ex_mf] ex_solve
  have 3: "\<exists>ml. iterates ex_P (solve_reset ex_P ex_m) ml \<and> sigma ex_mf = sigma ml" by blast
  from 1 2 3 ex_round0 ex_iterates ex_solve show ?thesis by blast
qed

text \<open>
  C7. When \<open>nlp_jac_fg\<close> returns non-zero in a round of the main loop, the round ends
  in \<open>return 1\<close> and \<open>solve\<close> returns 1; the same holds when \<open>nlp_hess_l\<close> returns
  non-zero in a round that reaches the exact Hessian. When \<open>nlp_fg\<close> returns non-zero
  on a candidate of the line search, nothing is returned: the step size is multiplied
  by \<open>beta\<close> and the line-search loop goes round again.
\<close>

theorem evaluation_failure_disposition:
  "(iterates P (solve_reset P m0) m \<and>
    nlp_jac_fg P (take (nx P) (nlp_z m)) (nlp_p m) = None \<longrightarrow>
      sqp_iteration P m = Some (Return1 m) \<and> solve P m0 = Some (1, m)) \<and>
   (iterates P (solve_reset P m0) m \<and> solve_eval P m = Some m1 \<and> solve_criteria P m1 = None \<and>
    exact_hessian P \<and>
    nlp_hess_l P (take (nx P) (nlp_z m1)) (nlp_p m1) 1 (drop (nx P) (nlp_lam m1)) = None \<longrightarrow>
      sqp_iteration P m = Some (Return1 m1) \<and> solve P m0 = Some (1, m1)) \<and>
   (nlp_fg P (ls_candidate P ml) (nlp_p ml) = None \<longrightarrow>
      (\<exists>ml'. ls_body P L1dir meritmax ml = LsContinue ml' \<and> t_ls ml' = beta P * t_ls ml \<and>
             ls_loop P L1dir meritmax ml = ls_loop P L1dir meritmax ml'))"
proof -
  have 1: "iterates P (solve_reset P m0) m \<and>
    nlp_jac_fg P (take (nx P) (nlp_z m)) (nlp_p m) = None \<longrightarrow>
      sqp_iteration P m = Some (Return1 m) \<and> solve P m0 = Some (1, m)"
  proof
    assume a: "iterates P (solve_reset P m0) m \<and>
      nlp_jac_fg P (take (nx P) (nlp_z m)) (nlp_p m) = None"
    then have r: "sqp_iteration P m = Some (Return1 m)"
      by (simp add: sqp_iteration_Return1 solve_eval_None)
    from a have "solve P m0 = solve_loop P m"
      by (simp add: solve_def solve_loop_iterates)
    with r show "sqp_iteration P m = Some (Return1 m) \<and> solve P m0 = Some (1, m)"
      by (simp add: solve_loop_Return1)
  qed
  have 2: "iterates P (solve_reset P m0) m \<and> solve_eval P m = Some m1 \<and> solve_criteria P m1 = None \<and>
    exact_hessian P \<and>
    nlp_hess_l P (take (nx P) (nlp_z m1)) (nlp_p m1) 1 (drop (nx P) (nlp_lam m1)) = None \<longrightarrow>
      sqp_iteration P m = Some (Return1 m1) \<and> solve P m0 = Some (1, m1)"
  proof
    assume a: "iterates P (solve_reset P m0) m \<and> solve_eval P m = Some m1 \<and>
      solve_criteria P m1 = None \<and> exact_hessian P \<and>
      nlp_hess_l P (take (nx P) (nlp_z m1)) (nlp_p m1) 1 (drop (nx P) (nlp_lam m1)) = None"
    then have r: "sqp_iteration P m = Some (Return1 m1)"
      by (simp add: sqp_iteration_Return1 solve_hessian_None)
    from a have "solve P m0 = solve_loop P m"
      by (simp add: solve_def solve_loop_iterates)
    with r show "sqp_iteration P m = Some (Return1 m1) \<and> solve P m0 = Some (1, m1)"
      by (simp add: solve_loop_Return1)
  qed
  have 3: "nlp_fg P (ls_candidate P ml) (nlp_p ml) = None \<longrightarrow>
      (\<exists>ml'. ls_body P L1dir meritmax ml = LsContinue ml' \<and> t_ls ml' = beta P * t_ls ml \<and>
             ls_loop P L1dir meritmax ml = ls_loop P L1dir meritmax ml')"
  proof
    assume "nlp_fg P (ls_candidate P ml) (nlp_p ml) = None"
    from ls_body_failed[OF this, of L1dir meritmax]
    show "\<exists>ml'. ls_body P L1dir meritmax ml = LsContinue ml' \<and> t_ls ml' = beta P * t_ls ml \<and>
             ls_loop P L1dir meritmax ml = ls_loop P L1dir meritmax ml'"
      by (subst ls_loop.simps) simp
  qed
  from 1 2 3 show ?thesis by blast
qed

theorem evaluation_failure_disposition_witness:
  "solve (ex_P\<lparr>nlp_jac_fg := \<lambda>x p. None\<rparr>) ex_m
     = Some (1, solve_reset (ex_P\<lparr>nlp_jac_fg := \<lambda>x p. None\<rparr>) ex_m) \<and>
   solve (ex_P\<lparr>nlp_hess_l := \<lambda>x p lam_f lam_g. None\<rparr>) ex_m
     = Some (1, the (solve_eval ex_P (solve_reset ex_P ex_m))) \<and>
   (\<exists>ml'. ls_body (ex_P\<lparr>nlp_fg := \<lambda>x p. None\<rparr>) (- 2) 1 (ex_m\<lparr>t_ls := 1\<rparr>) = LsContinue ml' \<and>
          t_ls ml' = 4 / 5)"
proof -
  let ?PJ = "ex_P\<lparr>nlp_jac_fg := \<lambda>x p. None\<rparr>"
  let ?PH = "ex_P\<lparr>nlp_hess_l := \<lambda>x p lam_f lam_g. None\<rparr>"
  let ?PF = "ex_P\<lparr>nlp_fg := \<lambda>x p. None\<rparr>"
  let ?m1 = "the (solve_eval ex_P (solve_reset ex_P ex_m))"
  have j: "iterates ?PJ (solve_reset ?PJ ex_m) (solve_reset ?PJ ex_m) \<and>
    nlp_jac_fg ?PJ (take (nx ?PJ) (nlp_z (solve_reset ?PJ ex_m))) (nlp_p (solve_reset ?PJ ex_m)) = None"
    by (simp add: iterates_start)
  have ev: "solve_eval ?PH (solve_reset ?PH ex_m) = Some ?m1"
    by (simp add: solve_eval_def solve_reset_def kernel_defs ex_P_def ex_m_def Let_def)
  have cr: "solve_criteria ?PH ?m1 = None"
    by (simp add: solve_eval_def solve_reset_def solve_criteria_def pr_inf_def du_inf_def
        dx_norminf_def kernel_defs ex_P_def ex_m_def Let_def)
  have h: "iterates ?PH (solve_reset ?PH ex_m) (solve_reset ?PH ex_m) \<and>
    solve_eval ?PH (solve_reset ?PH ex_m) = Some ?m1 \<and> solve_criteria ?PH ?m1 = None \<and>
    exact_hessian ?PH \<and>
    nlp_hess_l ?PH (take (nx ?PH) (nlp_z ?m1)) (nlp_p ?m1) 1 (drop (nx ?PH) (nlp_lam ?m1)) = None"
    using ev cr by (simp add: iterates_start ex_P_def)
  have g: "nlp_fg ?PF (ls_candidate ?PF (ex_m\<lparr>t_ls := 1\<rparr>)) (nlp_p (ex_m\<lparr>t_ls := 1\<rparr>)) = None"
    by simp
  from evaluation_failure_disposition[of ?PJ ex_m "solve_reset ?PJ ex_m"] j
  have 1: "solve ?PJ ex_m = Some (1, solve_reset ?PJ ex_m)" by blast
  from evaluation_failure_disposition[of ?PH ex_m "solve_reset ?PH ex_m" ?m1] h
  have 2: "solve ?PH ex_m = Some (1, ?m1)" by blast
  from evaluation_failure_disposition[of ?PF _ _ _ "ex_m\<lparr>t_ls := 1\<rparr>" "- 2" 1] g
  obtain ml' where "ls_body ?PF (- 2) 1 (ex_m\<lparr>t_ls := 1\<rparr>) = LsContinue ml'"
    and "t_ls ml' = beta ?PF * t_ls (ex_m\<lparr>t_ls := 1\<rparr>)" by blast
  then have 3: "\<exists>ml'. ls_body ?PF (- 2) 1 (ex_m\<lparr>t_ls := 1\<rparr>) = LsContinue ml' \<and> t_ls ml' = 4 / 5"
    by (simp add: ex_P_def)
  from 1 2 3 show ?thesis by blast
qed

text \<open>
  C8. Take a round that goes on to the next, and the memory \<open>mq\<close> after its QP solve,
  with buffers of the sizes of the workspace (\<open>nx + ng\<close> for \<open>lam\<close>, \<open>dlam\<close> and
  \<open>z\<close>, \<open>nx\<close> for \<open>dx\<close>). With \<open>max_iter_ls > 0\<close> and the line search ending with
  the step fraction \<open>t\<close>, the duals become \<open>(1 - t) * lam + t * dlam\<close> on all
  \<open>nx + ng\<close> slots, \<open>dx\<close> becomes \<open>t * dx\<close>, and \<open>x\<close> becomes \<open>x + t * dx\<close> with the
  constraint slots of \<open>z\<close> untouched. With \<open>max_iter_ls = 0\<close> (or less) the duals
  become \<open>dlam\<close>, \<open>dx\<close> stays, and \<open>x\<close> becomes \<open>x + dx\<close>.
\<close>

theorem step_application:
  "sqp_iteration P m = Some (Next m') \<and> solve_eval P m = Some m1 \<and>
   solve_hessian P m1 = Some m2 \<and> mq = solve_qp_step P m2 \<and>
   length (nlp_lam mq) = nx P + ng P \<and> length (dlam mq) = nx P + ng P \<and>
   length (dx mq) = nx P \<and> length (nlp_z mq) = nx P + ng P \<longrightarrow>
     (if 0 < max_iter_ls P
      then nlp_lam m' = map2 (\<lambda>l d. (1 - t_ls m') * l + t_ls m' * d) (nlp_lam mq) (dlam mq) \<and>
           dx m' = map (\<lambda>d. t_ls m' * d) (dx mq) \<and>
           nlp_z m' = map2 (\<lambda>x d. x + t_ls m' * d) (take (nx P) (nlp_z mq)) (dx mq)
                        @ drop (nx P) (nlp_z mq)
      else nlp_lam m' = dlam mq \<and> dx m' = dx mq \<and>
           nlp_z m' = map2 (\<lambda>x d. x + d) (take (nx P) (nlp_z mq)) (dx mq)
                        @ drop (nx P) (nlp_z mq))"
proof
  assume a: "sqp_iteration P m = Some (Next m') \<and> solve_eval P m = Some m1 \<and>
   solve_hessian P m1 = Some m2 \<and> mq = solve_qp_step P m2 \<and>
   length (nlp_lam mq) = nx P + ng P \<and> length (dlam mq) = nx P + ng P \<and>
   length (dx mq) = nx P \<and> length (nlp_z mq) = nx P + ng P"
  then obtain m3 where ls: "solve_linesearch P mq = Some m3" and m': "m' = solve_take_step P m3"
    by (auto simp: sqp_iteration_Next)
  from a have len: "length (nlp_lam mq) = nx P + ng P" "length (dlam mq) = nx P + ng P"
    "length (dx mq) = nx P" "length (nlp_z mq) = nx P + ng P" by blast+
  have t: "t_ls m' = t_ls m3" by (simp add: m' solve_take_step_closed)
  have z: "nlp_z m' = casadi_axpy (nx P) 1 (dx m3) (nlp_z m3)" "dx m' = dx m3"
    "nlp_lam m' = nlp_lam m3" by (simp_all add: m' solve_take_step_keeps)
  show "if 0 < max_iter_ls P
      then nlp_lam m' = map2 (\<lambda>l d. (1 - t_ls m') * l + t_ls m' * d) (nlp_lam mq) (dlam mq) \<and>
           dx m' = map (\<lambda>d. t_ls m' * d) (dx mq) \<and>
           nlp_z m' = map2 (\<lambda>x d. x + t_ls m' * d) (take (nx P) (nlp_z mq)) (dx mq)
                        @ drop (nx P) (nlp_z mq)
      else nlp_lam m' = dlam mq \<and> dx m' = dx mq \<and>
           nlp_z m' = map2 (\<lambda>x d. x + d) (take (nx P) (nlp_z mq)) (dx mq)
                        @ drop (nx P) (nlp_z mq)"
  proof (cases "0 < max_iter_ls P")
    case True
    with solve_linesearch_result[OF ls]
    have r: "nlp_lam m3 = casadi_axpy (nx P + ng P) (t_ls m3) (dlam mq)
                         (casadi_scal (nx P + ng P) (1 - t_ls m3) (nlp_lam mq))"
      "dx m3 = casadi_scal (nx P) (t_ls m3) (dx mq)" "nlp_z m3 = nlp_z mq" by simp_all
    have 1: "nlp_lam m' = map2 (\<lambda>l d. (1 - t_ls m') * l + t_ls m' * d) (nlp_lam mq) (dlam mq)"
      by (simp only: z r t axpy_scal_lists[OF len(1) len(2)])
    have 2: "dx m' = map (\<lambda>d. t_ls m' * d) (dx mq)"
      by (simp only: z r t scal_list[OF len(3)])
    have 3: "nlp_z m' = map2 (\<lambda>x d. x + t_ls m' * d) (take (nx P) (nlp_z mq)) (dx mq)
                        @ drop (nx P) (nlp_z mq)"
      by (simp only: z r t scal_list[OF len(3)] axpy_scaled_step[OF len(3)])
    from True 1 2 3 show ?thesis by simp
  next
    case False
    with solve_linesearch_result[OF ls]
    have r: "nlp_lam m3 = casadi_copy (dlam mq) (nx P + ng P) (nlp_lam mq)"
      "dx m3 = dx mq" "nlp_z m3 = nlp_z mq" by simp_all
    have 1: "nlp_lam m' = dlam mq"
      by (simp only: z r copy_list[OF len(2) len(1)])
    have 3: "nlp_z m' = map2 (\<lambda>x d. x + d) (take (nx P) (nlp_z mq)) (dx mq)
                        @ drop (nx P) (nlp_z mq)"
      using axpy_scaled_step[OF len(3), of 1 "nlp_z mq"] by (simp add: z r)
    from False 1 3 z r show ?thesis by simp
  qed
qed

theorem step_application_witness:
  "nlp_lam ex_B1 = map2 (\<lambda>l d. (1 - 4 / 5) * l + 4 / 5 * d) (nlp_lam ex_Bq0) (dlam ex_Bq0) \<and>
   dx ex_B1 = map (\<lambda>d. 4 / 5 * d) (dx ex_Bq0) \<and>
   nlp_z ex_B1 = map2 (\<lambda>x d. x + 4 / 5 * d) (take (nx ex_B) (nlp_z ex_Bq0)) (dx ex_Bq0)
                   @ drop (nx ex_B) (nlp_z ex_Bq0) \<and>
   nlp_lam ex_F1 = dlam ex_q0 \<and> dx ex_F1 = dx ex_q0 \<and>
   nlp_z ex_F1 = map2 (\<lambda>x d. x + d) (take (nx ex_F) (nlp_z ex_q0)) (dx ex_q0)
                   @ drop (nx ex_F) (nlp_z ex_q0)"
proof -
  have lenB: "length (nlp_lam ex_Bq0) = nx ex_B + ng ex_B \<and>
      length (dlam ex_Bq0) = nx ex_B + ng ex_B \<and> length (dx ex_Bq0) = nx ex_B \<and>
      length (nlp_z ex_Bq0) = nx ex_B + ng ex_B"
    by (simp add: ex_defs)
  have lenF: "length (nlp_lam ex_q0) = nx ex_F + ng ex_F \<and>
      length (dlam ex_q0) = nx ex_F + ng ex_F \<and> length (dx ex_q0) = nx ex_F \<and>
      length (nlp_z ex_q0) = nx ex_F + ng ex_F"
    by (simp add: ex_defs)
  have onB: "0 < max_iter_ls ex_B" and offF: "\<not> 0 < max_iter_ls ex_F"
    and tB: "t_ls ex_B1 = 4 / 5"
    by (simp_all add: ex_defs ex_B1_def)
  from step_application[where P = ex_B and m = "solve_reset ex_B ex_m" and m' = ex_B1
      and ?m1.0 = ex_e0 and ?m2.0 = "ex_e0\<lparr>Bk := [[1]]\<rparr>" and mq = ex_Bq0]
    ex_B_round0 ex_eval0(2) ex_hessian0(2) ex_qp0(2) lenB onB tB
  have 1: "nlp_lam ex_B1 = map2 (\<lambda>l d. (1 - 4 / 5) * l + 4 / 5 * d) (nlp_lam ex_Bq0) (dlam ex_Bq0) \<and>
   dx ex_B1 = map (\<lambda>d. 4 / 5 * d) (dx ex_Bq0) \<and>
   nlp_z ex_B1 = map2 (\<lambda>x d. x + 4 / 5 * d) (take (nx ex_B) (nlp_z ex_Bq0)) (dx ex_Bq0)
                   @ drop (nx ex_B) (nlp_z ex_Bq0)"
    by simp
  from step_application[where P = ex_F and m = "solve_reset ex_F ex_m" and m' = ex_F1
      and ?m1.0 = ex_e0 and ?m2.0 = "ex_e0\<lparr>Bk := [[2]]\<rparr>" and mq = ex_q0]
    ex_F_round0 ex_eval0(3) ex_hessian0(3) ex_qp0(3) lenF offF
  have 2: "nlp_lam ex_F1 = dlam ex_q0 \<and> dx ex_F1 = dx ex_q0 \<and>
   nlp_z ex_F1 = map2 (\<lambda>x d. x + d) (take (nx ex_F) (nlp_z ex_q0)) (dx ex_q0)
                   @ drop (nx ex_F) (nlp_z ex_q0)"
    by simp
  from 1 2 show ?thesis by blast
qed

text \<open>
  C9. The flag that the QP subsolver returns is not looked at: \<open>solve\<close> gives the same
  result whatever flag the subsolver returns with the same outputs. The QP step leaves
  \<open>return_status\<close> alone, and so does a whole round that goes on to the next. A round
  that leaves the loop by \<open>break\<close> makes \<open>solve\<close> return 0, with one of the four
  terminal statuses. A \<open>solve\<close> that returns does so with 0 from a \<open>break\<close>, or with
  1 from a failure of \<open>nlp_jac_fg\<close> or of \<open>nlp_hess_l\<close>.
\<close>

theorem qp_return_value_unused:
  "solve (P\<lparr>qpsol := \<lambda>a. (flag a, snd (qpsol P a))\<rparr>) m0 = solve P m0 \<and>
   return_status (solve_qp_step P m) = return_status m \<and>
   (sqp_iteration P m = Some (Next m') \<longrightarrow> return_status m' = return_status m) \<and>
   (sqp_iteration P m = Some (Break mb) \<longrightarrow>
      solve_loop P m = Some (0, mb) \<and>
      return_status mb \<in> {''User_Requested_Stop'', ''Solve_Succeeded'',
         ''Maximum_Iterations_Exceeded'', ''Search_Direction_Becomes_Too_Small''}) \<and>
   (solve P m0 = Some (rc, mf) \<longrightarrow>
      (\<exists>ml. iterates P (solve_reset P m0) ml \<and>
         (if rc = 0 then sqp_iteration P ml = Some (Break mf)
          else rc = 1 \<and>
            (nlp_jac_fg P (take (nx P) (nlp_z ml)) (nlp_p ml) = None \<and> mf = ml \<or>
             solve_eval P ml = Some mf \<and> solve_criteria P mf = None \<and> exact_hessian P \<and>
             nlp_hess_l P (take (nx P) (nlp_z mf)) (nlp_p mf) 1 (drop (nx P) (nlp_lam mf))
               = None))))"
proof -
  have 1: "solve (P\<lparr>qpsol := \<lambda>a. (flag a, snd (qpsol P a))\<rparr>) m0 = solve P m0"
    by (rule qpsol_flag_unused)
  have 2: "return_status (solve_qp_step P m) = return_status m"
    by (rule solve_qp_step_keeps)
  have 3: "sqp_iteration P m = Some (Next m') \<longrightarrow> return_status m' = return_status m"
    by (simp add: sqp_iteration_Next_keeps)
  have 4: "sqp_iteration P m = Some (Break mb) \<longrightarrow>
      solve_loop P m = Some (0, mb) \<and>
      return_status mb \<in> {''User_Requested_Stop'', ''Solve_Succeeded'',
         ''Maximum_Iterations_Exceeded'', ''Search_Direction_Becomes_Too_Small''}"
    using solve_criteria_status by (auto simp: solve_loop_Break sqp_iteration_Break)
  have 5: "solve P m0 = Some (rc, mf) \<longrightarrow>
      (\<exists>ml. iterates P (solve_reset P m0) ml \<and>
         (if rc = 0 then sqp_iteration P ml = Some (Break mf)
          else rc = 1 \<and>
            (nlp_jac_fg P (take (nx P) (nlp_z ml)) (nlp_p ml) = None \<and> mf = ml \<or>
             solve_eval P ml = Some mf \<and> solve_criteria P mf = None \<and> exact_hessian P \<and>
             nlp_hess_l P (take (nx P) (nlp_z mf)) (nlp_p mf) 1 (drop (nx P) (nlp_lam mf))
               = None)))"
  proof
    assume "solve P m0 = Some (rc, mf)"
    then have "solve_loop P (solve_reset P m0) = Some (rc, mf)" by (simp add: solve_def)
    from solve_loop_result[OF this] obtain ml where it: "iterates P (solve_reset P m0) ml"
      and r: "sqp_iteration P ml = Some (Break mf) \<and> rc = 0 \<or>
              sqp_iteration P ml = Some (Return1 mf) \<and> rc = 1"
      by auto
    from r have "if rc = 0 then sqp_iteration P ml = Some (Break mf)
          else rc = 1 \<and>
            (nlp_jac_fg P (take (nx P) (nlp_z ml)) (nlp_p ml) = None \<and> mf = ml \<or>
             solve_eval P ml = Some mf \<and> solve_criteria P mf = None \<and> exact_hessian P \<and>
             nlp_hess_l P (take (nx P) (nlp_z mf)) (nlp_p mf) 1 (drop (nx P) (nlp_lam mf))
               = None)"
      by (auto simp: sqp_iteration_Return1 solve_eval_None solve_hessian_None)
    with it show "\<exists>ml. iterates P (solve_reset P m0) ml \<and>
         (if rc = 0 then sqp_iteration P ml = Some (Break mf)
          else rc = 1 \<and>
            (nlp_jac_fg P (take (nx P) (nlp_z ml)) (nlp_p ml) = None \<and> mf = ml \<or>
             solve_eval P ml = Some mf \<and> solve_criteria P mf = None \<and> exact_hessian P \<and>
             nlp_hess_l P (take (nx P) (nlp_z mf)) (nlp_p mf) 1 (drop (nx P) (nlp_lam mf))
               = None))" by blast
  qed
  from 1 2 3 4 5 show ?thesis by blast
qed

theorem qp_return_value_unused_witness:
  "sqp_iteration ex_P (solve_reset ex_P ex_m) = Some (Next ex_m1) \<and>
   return_status ex_m1 = return_status (solve_reset ex_P ex_m) \<and>
   sqp_iteration ex_P ex_m1 = Some (Break ex_mf) \<and>
   solve_loop ex_P ex_m1 = Some (0, ex_mf) \<and>
   return_status ex_mf = ''Solve_Succeeded'' \<and>
   solve ex_P ex_m = Some (0, ex_mf) \<and>
   (\<exists>ml. iterates ex_P (solve_reset ex_P ex_m) ml \<and> sqp_iteration ex_P ml = Some (Break ex_mf)) \<and>
   solve (ex_P\<lparr>qpsol := \<lambda>a. (1, snd (qpsol ex_P a))\<rparr>) ex_m = Some (0, ex_mf)"
proof -
  from qp_return_value_unused[where P = ex_P and m = "solve_reset ex_P ex_m" and m' = ex_m1] ex_round0
  have 1: "return_status ex_m1 = return_status (solve_reset ex_P ex_m)" by blast
  from qp_return_value_unused[where P = ex_P and m = ex_m1 and mb = ex_mf] ex_round1
  have 2: "solve_loop ex_P ex_m1 = Some (0, ex_mf)" by blast
  from qp_return_value_unused[where P = ex_P and ?m0.0 = ex_m and rc = 0 and mf = ex_mf] ex_solve
  have 3: "\<exists>ml. iterates ex_P (solve_reset ex_P ex_m) ml \<and>
             sqp_iteration ex_P ml = Some (Break ex_mf)" by simp
  from qp_return_value_unused[where P = ex_P and flag = "\<lambda>a. 1" and ?m0.0 = ex_m] ex_solve
  have 4: "solve (ex_P\<lparr>qpsol := \<lambda>a. (1, snd (qpsol ex_P a))\<rparr>) ex_m = Some (0, ex_mf)" by simp
  have 5: "return_status ex_mf = ''Solve_Succeeded''" by (simp add: ex_mf_def)
  from 1 2 3 4 5 ex_round0 ex_round1 ex_solve show ?thesis by blast
qed

text \<open>
  C10. When every evaluation of \<open>nlp_fg\<close> that the line-search loop makes succeeds, a
  loop entered with \<open>ls_iter = 0\<close> and \<open>max_iter_ls > 0\<close> leaves after at least one and
  at most \<open>max_iter_ls\<close> rounds. The bound rests on the evaluations: a round whose
  evaluation fails counts in \<open>ls_iter\<close> too and goes round again without the test
  \<open>ls_iter = max_iter_ls\<close>, and a round entered with \<open>ls_iter \<ge> max_iter_ls\<close> leaves
  the loop only by the Armijo condition.
\<close>

theorem line_search_terminates:
  "((\<forall>m'. ls_iterates P L1dir meritmax m m' \<longrightarrow>
        nlp_fg P (ls_candidate P m') (nlp_p m') \<noteq> None) \<and>
    0 < max_iter_ls P \<and> ls_iter m = 0 \<longrightarrow>
      (\<exists>m'. ls_loop P L1dir meritmax m = Some m' \<and> 1 \<le> ls_iter m' \<and>
            ls_iter m' \<le> max_iter_ls P)) \<and>
   (nlp_fg P (ls_candidate P m) (nlp_p m) = None \<longrightarrow>
      (\<exists>m'. ls_body P L1dir meritmax m = LsContinue m' \<and> ls_iter m' = ls_iter m + 1 \<and>
            ls_loop P L1dir meritmax m = ls_loop P L1dir meritmax m')) \<and>
   (max_iter_ls P \<le> ls_iter m \<and> ls_body P L1dir meritmax m = LsBreak mb \<longrightarrow>
      ls_success mb = ls_success m \<and>
      (\<exists>fk g. nlp_fg P (ls_candidate P m) (nlp_p m) = Some (fk, g) \<and>
         fk + sigma m * casadi_max_viol (nx P + ng P) (ls_candidate P m @ g)
                          (nlp_lbz m) (nlp_ubz m)
           \<le> meritmax + t_ls m * c1 P * L1dir))"
proof -
  have 1: "(\<forall>m'. ls_iterates P L1dir meritmax m m' \<longrightarrow>
        nlp_fg P (ls_candidate P m') (nlp_p m') \<noteq> None) \<and>
    0 < max_iter_ls P \<and> ls_iter m = 0 \<longrightarrow>
      (\<exists>m'. ls_loop P L1dir meritmax m = Some m' \<and> 1 \<le> ls_iter m' \<and>
            ls_iter m' \<le> max_iter_ls P)"
  proof
    assume a: "(\<forall>m'. ls_iterates P L1dir meritmax m m' \<longrightarrow>
        nlp_fg P (ls_candidate P m') (nlp_p m') \<noteq> None) \<and>
      0 < max_iter_ls P \<and> ls_iter m = 0"
    then have ok: "\<And>m'. ls_iterates P L1dir meritmax m m' \<Longrightarrow>
        nlp_fg P (ls_candidate P m') (nlp_p m') \<noteq> None" by blast
    from a have lt: "ls_iter m < max_iter_ls P" by simp
    have "\<exists>m'. ls_loop P L1dir meritmax m = Some m' \<and> ls_iter m < ls_iter m' \<and>
        ls_iter m' \<le> max_iter_ls P"
      by (rule ls_loop_bounded[OF ok lt refl])
    with a show "\<exists>m'. ls_loop P L1dir meritmax m = Some m' \<and> 1 \<le> ls_iter m' \<and>
            ls_iter m' \<le> max_iter_ls P" by auto
  qed
  have 2: "nlp_fg P (ls_candidate P m) (nlp_p m) = None \<longrightarrow>
      (\<exists>m'. ls_body P L1dir meritmax m = LsContinue m' \<and> ls_iter m' = ls_iter m + 1 \<and>
            ls_loop P L1dir meritmax m = ls_loop P L1dir meritmax m')"
  proof
    assume "nlp_fg P (ls_candidate P m) (nlp_p m) = None"
    from ls_body_failed[OF this, of L1dir meritmax]
    show "\<exists>m'. ls_body P L1dir meritmax m = LsContinue m' \<and> ls_iter m' = ls_iter m + 1 \<and>
            ls_loop P L1dir meritmax m = ls_loop P L1dir meritmax m'"
      by (subst ls_loop.simps) simp
  qed
  have 3: "max_iter_ls P \<le> ls_iter m \<and> ls_body P L1dir meritmax m = LsBreak mb \<longrightarrow>
      ls_success mb = ls_success m \<and>
      (\<exists>fk g. nlp_fg P (ls_candidate P m) (nlp_p m) = Some (fk, g) \<and>
         fk + sigma m * casadi_max_viol (nx P + ng P) (ls_candidate P m @ g)
                          (nlp_lbz m) (nlp_ubz m)
           \<le> meritmax + t_ls m * c1 P * L1dir)"
    by (cases "nlp_fg P (ls_candidate P m) (nlp_p m)")
       (auto simp: ls_body_failed ls_body_evaluated Let_def split: if_splits)
  from 1 2 3 show ?thesis by blast
qed

theorem line_search_terminates_witness:
  "solve_merit ex_B (ex_Bq0\<lparr>t_ls := 1, ls_iter := 0, ls_success := True\<rparr>) = (ex_Bs0, - 4, 1) \<and>
   ls_loop ex_B (- 4) 1 ex_Bs0
     = Some (ex_Bs0\<lparr>ls_iter := 2, z_cand := [- (3 / 5)], t_ls := 4 / 5\<rparr>) \<and>
   (\<exists>m'. ls_loop ex_B (- 4) 1 ex_Bs0 = Some m' \<and> 1 \<le> ls_iter m' \<and>
          ls_iter m' \<le> max_iter_ls ex_B) \<and>
   (\<exists>m'. ls_body ex_H (- 2) 1 ex_m = LsContinue m' \<and> ls_iter m' = ls_iter ex_m + 1 \<and>
          ls_loop ex_H (- 2) 1 ex_m = ls_loop ex_H (- 2) 1 m') \<and>
   (ls_body ex_P (- 2) 1 (ex_m\<lparr>dx := [- 1], t_ls := 1, ls_iter := 3\<rparr>)
      = LsBreak (ex_m\<lparr>dx := [- 1], t_ls := 1, ls_iter := 4\<rparr>) \<and>
    ls_success (ex_m\<lparr>dx := [- 1], t_ls := 1, ls_iter := 4\<rparr>))"
proof -
  have ok: "\<forall>m'. ls_iterates ex_B (- 4) 1 ex_Bs0 m' \<longrightarrow>
      nlp_fg ex_B (ls_candidate ex_B m') (nlp_p m') \<noteq> None"
    by (simp add: ex_defs)
  have en: "0 < max_iter_ls ex_B \<and> ls_iter ex_Bs0 = 0"
    by (simp add: ex_defs ex_Bs0_def)
  have fl: "nlp_fg ex_H (ls_candidate ex_H ex_m) (nlp_p ex_m) = None"
    by (simp add: ex_H_def)
  have br: "max_iter_ls ex_P \<le> ls_iter (ex_m\<lparr>dx := [- 1], t_ls := 1, ls_iter := 3\<rparr>) \<and>
      ls_body ex_P (- 2) 1 (ex_m\<lparr>dx := [- 1], t_ls := 1, ls_iter := 3\<rparr>)
        = LsBreak (ex_m\<lparr>dx := [- 1], t_ls := 1, ls_iter := 4\<rparr>)"
    by (simp add: ls_body_def kernel_defs ex_P_def ex_m_def Let_def)
  from line_search_terminates[of ex_B "- 4" 1 ex_Bs0] ok en
  have 1: "\<exists>m'. ls_loop ex_B (- 4) 1 ex_Bs0 = Some m' \<and> 1 \<le> ls_iter m' \<and>
          ls_iter m' \<le> max_iter_ls ex_B" by blast
  from line_search_terminates[of ex_H "- 2" 1 ex_m] fl
  have 2: "\<exists>m'. ls_body ex_H (- 2) 1 ex_m = LsContinue m' \<and> ls_iter m' = ls_iter ex_m + 1 \<and>
          ls_loop ex_H (- 2) 1 ex_m = ls_loop ex_H (- 2) 1 m'" by blast
  from line_search_terminates[of ex_P "- 2" 1 "ex_m\<lparr>dx := [- 1], t_ls := 1, ls_iter := 3\<rparr>"
      "ex_m\<lparr>dx := [- 1], t_ls := 1, ls_iter := 4\<rparr>"] br
  have 3: "ls_success (ex_m\<lparr>dx := [- 1], t_ls := 1, ls_iter := 4\<rparr>)
             = ls_success (ex_m\<lparr>dx := [- 1], t_ls := 1, ls_iter := 3\<rparr>)" by blast
  then have "ls_success (ex_m\<lparr>dx := [- 1], t_ls := 1, ls_iter := 4\<rparr>)"
    by (simp add: ex_m_def)
  with 1 2 br ex_B_merit0 ex_B_ls0 show ?thesis by blast
qed

end
